theory Spec2Isabelle
  imports Main "HOL-Library.Sublist"
begin

section \<open>Bytes and strings\<close>

text \<open>
  Go's \<^verbatim>\<open>string\<close> and \<^verbatim>\<open>[]byte\<close> are both sequences of bytes. Isabelle's
  \<^typ>\<open>char\<close> has exactly 256 values, so both are modelled as \<^typ>\<open>string\<close>;
  \<^term>\<open>of_char\<close> reads a byte as a number and \<^term>\<open>char_of\<close> is Go's
  conversion \<^verbatim>\<open>byte(v)\<close>, which keeps the low eight bits.
\<close>

type_synonym bytes = string

definition LF :: char where
  "LF = CHR 0x0A"

definition CR :: char where
  "CR = CHR 0x0D"

definition TAB :: char where
  "TAB = CHR 0x09"

text \<open>\<^verbatim>\<open>bytes.IndexByte\<close>: the first position of a byte, \<open>None\<close> for Go's \<open>-1\<close>.\<close>

fun IndexByte :: "string \<Rightarrow> char \<Rightarrow> nat option" where
  "IndexByte [] c = None"
| "IndexByte (x # xs) c = (if x = c then Some 0 else map_option Suc (IndexByte xs c))"

text \<open>\<^verbatim>\<open>bytes.Index\<close>: the first position at which \<open>sep\<close> occurs.\<close>

fun Index :: "string \<Rightarrow> string \<Rightarrow> nat option" where
  "Index [] sep = (if sep = [] then Some 0 else None)"
| "Index (x # xs) sep =
     (if prefix sep (x # xs) then Some 0 else map_option Suc (Index xs sep))"

text \<open>\<^verbatim>\<open>bytes.TrimRight(s, " \t")\<close>.\<close>

definition TrimRight_sp_tab :: "string \<Rightarrow> string" where
  "TrimRight_sp_tab s = rev (dropWhile (\<lambda>c. c = CHR '' '' \<or> c = TAB) (rev s))"

section \<open>encoding/base64, standard alphabet with padding\<close>

text \<open>
  The repository calls \<^verbatim>\<open>base64.StdEncoding.EncodeToString\<close> (kubeconfig fields) and,
  through \<^verbatim>\<open>encoding/pem\<close>, the encoder and decoder of the same alphabet. The model
  follows the library: three input bytes are packed into a 24-bit value
  \<^verbatim>\<open>val = b0<<16 | b1<<8 | b2\<close> and cut into four 6-bit indices
  \<^verbatim>\<open>val>>18&0x3F\<close>, ... into the alphabet; a final group of one or two bytes is
  padded with \<^verbatim>\<open>=\<close>. The shifts and masks are written as \<open>div\<close> and \<open>mod\<close>
  on \<^typ>\<open>nat\<close>; no value exceeds 24 bits, so nothing wraps.
\<close>

definition encodeStd :: string where
  "encodeStd = ''ABCDEFGHIJKLMNOPQRSTUVWXYZabcdefghijklmnopqrstuvwxyz0123456789+/''"

definition padChar :: char where
  "padChar = CHR ''=''"

definition enc :: "nat \<Rightarrow> char" where
  "enc n = encodeStd ! (n mod 64)"

text \<open>The decode map of the alphabet: \<open>None\<close> is the library's entry \<^verbatim>\<open>0xff\<close>.\<close>

definition decodeMap :: "char \<Rightarrow> nat option" where
  "decodeMap c = IndexByte encodeStd c"

fun EncodeToString :: "bytes \<Rightarrow> string" where
  "EncodeToString (b0 # b1 # b2 # src) =
     (let val = of_char b0 * 65536 + of_char b1 * 256 + (of_char b2 :: nat)
      in enc (val div 262144) # enc (val div 4096) # enc (val div 64) # enc val #
         EncodeToString src)"
| "EncodeToString [b0, b1] =
     (let val = of_char b0 * 65536 + of_char b1 * (256 :: nat)
      in [enc (val div 262144), enc (val div 4096), enc (val div 64), padChar])"
| "EncodeToString [b0] =
     (let val = of_char b0 * (65536 :: nat)
      in [enc (val div 262144), enc (val div 4096), padChar, padChar])"
| "EncodeToString [] = []"

text \<open>
  One decoded quantum: \<^verbatim>\<open>val = d0<<18 | d1<<12 | d2<<6 | d3\<close>, then
  \<^verbatim>\<open>byte(val>>16), byte(val>>8), byte(val)\<close>.
\<close>

definition quantum :: "nat \<Rightarrow> nat \<Rightarrow> nat \<Rightarrow> nat \<Rightarrow> bytes" where
  "quantum d0 d1 d2 d3 =
     (let val = d0 * 262144 + d1 * 4096 + d2 * 64 + d3
      in [char_of (val div 65536), char_of (val div 256), char_of val])"

text \<open>
  The decoder on input from which line breaks have been dropped. A full quantum
  of four alphabet characters gives three bytes. Padding is accepted only in the
  last quantum, as \<^verbatim>\<open>xx==\<close> (one byte) or \<^verbatim>\<open>xxx=\<close> (two bytes); anything after
  it, a character outside the alphabet, or input that ends inside a quantum is
  \<^verbatim>\<open>CorruptInputError\<close>, here \<open>None\<close>. The standard encoding is not strict: the
  unused low bits of a padded quantum are not checked.
\<close>

fun decodeQuanta :: "string \<Rightarrow> bytes option" where
  "decodeQuanta [] = Some []"
| "decodeQuanta (c0 # c1 # c2 # c3 # src) =
     (case decodeMap c0 of None \<Rightarrow> None
      | Some d0 \<Rightarrow>
     (case decodeMap c1 of None \<Rightarrow> None
      | Some d1 \<Rightarrow>
     (case decodeMap c2 of
        None \<Rightarrow>
          if c2 = padChar \<and> c3 = padChar \<and> src = []
          then Some (take 1 (quantum d0 d1 0 0)) else None
      | Some d2 \<Rightarrow>
     (case decodeMap c3 of
        None \<Rightarrow>
          if c3 = padChar \<and> src = []
          then Some (take 2 (quantum d0 d1 d2 0)) else None
      | Some d3 \<Rightarrow> map_option (\<lambda>r. quantum d0 d1 d2 d3 @ r) (decodeQuanta src)))))"
| "decodeQuanta _ = None"

text \<open>\<^verbatim>\<open>DecodeString\<close>: carriage returns and line feeds are skipped wherever they stand.\<close>

definition DecodeString :: "string \<Rightarrow> bytes option" where
  "DecodeString s = decodeQuanta (filter (\<lambda>c. c \<noteq> LF \<and> c \<noteq> CR) s)"

section \<open>encoding/pem\<close>

text \<open>
  \<^verbatim>\<open>writePEMFile\<close> hands a \<^verbatim>\<open>pem.Block\<close> to \<^verbatim>\<open>pem.Encode\<close>, and
  \<^verbatim>\<open>GenerateClientCert\<close> reads blocks back with \<^verbatim>\<open>pem.Decode\<close>. Both are
  modelled after the library. No caller sets or reads the optional headers of a
  block, so a block is its type and its bytes; the decoder only remembers whether
  it consumed header lines.
\<close>

definition pemStart :: string where
  "pemStart = LF # ''-----BEGIN ''"

definition pemEnd :: string where
  "pemEnd = LF # ''-----END ''"

definition pemEndOfLine :: string where
  "pemEndOfLine = ''-----''"

record pem_Block =
  Type :: string
  Bytes :: bytes

text \<open>
  The library's \<^verbatim>\<open>lineBreaker\<close>: the base64 text is written in lines of 64
  characters, each followed by a line feed; an empty text gives no line at all.
\<close>

function breakLines :: "string \<Rightarrow> string" where
  "breakLines s =
     (if length s < 64 then (if s = [] then [] else s @ [LF])
      else take 64 s @ [LF] @ breakLines (drop 64 s))"
  by pat_completeness auto
termination
  by (relation "measure length") auto

declare breakLines.simps [simp del]

text \<open>
  \<^verbatim>\<open>pem.Encode\<close> of a block without headers, as the text it writes:
  the BEGIN line, the broken base64 text, the END line. The type is written as it is.
\<close>

definition EncodeToMemory :: "pem_Block \<Rightarrow> string" where
  "EncodeToMemory b =
     tl pemStart @ Type b @ pemEndOfLine @ [LF] @
     breakLines (EncodeToString (Bytes b)) @
     tl pemEnd @ Type b @ pemEndOfLine @ [LF]"

text \<open>\<^verbatim>\<open>bytes.LastIndex\<close>: the last position at which \<open>sep\<close> occurs.\<close>

fun LastIndex :: "string \<Rightarrow> string \<Rightarrow> nat option" where
  "LastIndex [] sep = (if sep = [] then Some 0 else None)"
| "LastIndex (x # xs) sep =
     (case LastIndex xs sep of
        Some i \<Rightarrow> Some (Suc i)
      | None \<Rightarrow> if prefix sep (x # xs) then Some 0 else None)"

text \<open>
  \<^verbatim>\<open>getLine\<close>: the first line of \<open>data\<close> without its line end (a line feed,
  or carriage return and line feed) and without trailing spaces and tabs, the
  rest of \<open>data\<close> after the line feed, and the number of bytes consumed.
\<close>

definition getLine :: "string \<Rightarrow> string \<times> string \<times> nat" where
  "getLine data =
     (case IndexByte data LF of
        None \<Rightarrow> (TrimRight_sp_tab data, [], length data)
      | Some i \<Rightarrow>
          (let j = i + 1;
               i' = (if 0 < i \<and> data ! (i - 1) = CR then i - 1 else i)
           in (TrimRight_sp_tab (take i' data), drop j data, j)))"

definition removeSpacesAndTabs :: "string \<Rightarrow> string" where
  "removeSpacesAndTabs data = filter (\<lambda>c. c \<noteq> CHR '' '' \<and> c \<noteq> TAB) data"

text \<open>
  The header loop of \<^verbatim>\<open>pem.Decode\<close>: while the next line holds a colon it is a
  header line and is consumed, and the two indices of the END line move with
  the rest. Running out of input here makes \<^verbatim>\<open>Decode\<close> return no block
  (\<open>None\<close>). The flag tells whether a header was recorded
  (\<^verbatim>\<open>len(p.Headers) > 0\<close>).
\<close>

function headerLines ::
  "string \<Rightarrow> bool \<Rightarrow> int \<Rightarrow> int \<Rightarrow> (string \<times> bool \<times> int \<times> int) option" where
  "headerLines rest seen endIndex endTrailerIndex =
     (if rest = [] then None
      else (case getLine rest of
              (line, next, consumed) \<Rightarrow>
                if CHR '':'' \<in> set line
                then headerLines next True (endIndex - int consumed) (endTrailerIndex - int consumed)
                else Some (rest, seen, endIndex, endTrailerIndex)))"
  by pat_completeness auto
termination
proof (relation "measure (\<lambda>(rest, seen, endIndex, endTrailerIndex). length rest)")
  fix rest :: string and seen :: bool and endIndex endTrailerIndex :: int
    and line nxt and consumed :: nat and x
  assume ne: "rest \<noteq> []" and gl: "(line, x) = getLine rest" and x: "(nxt, consumed) = x"
  have idx: "IndexByte xs LF = Some i \<Longrightarrow> i < length xs" for xs i
    by (induction xs arbitrary: i) (auto split: if_splits)
  have "length nxt < length rest"
  proof (cases "IndexByte rest LF")
    case None
    with gl x ne show ?thesis by (auto simp: getLine_def)
  next
    case (Some i)
    with gl x idx[OF Some] show ?thesis by (auto simp: getLine_def Let_def)
  qed
  then show "((nxt, True, endIndex - int consumed, endTrailerIndex - int consumed),
              rest, seen, endIndex, endTrailerIndex)
             \<in> measure (\<lambda>(rest, seen, endIndex, endTrailerIndex). length rest)"
    by simp
qed simp

declare headerLines.simps [simp del]

text \<open>
  One pass of the loop of \<^verbatim>\<open>pem.Decode\<close> on the input that is left: the
  first END marker is found, then the last BEGIN marker before it, which must
  open the input or follow a line feed; then the type line, the header lines,
  the END line with the same type, and the base64 text between them. The
  result is a block, a final failure (\<^verbatim>\<open>return nil, data\<close>), or
  \<^verbatim>\<open>continue\<close> with the values of \<^verbatim>\<open>rest\<close> and \<^verbatim>\<open>endTrailerIndex\<close> at
  that point.
\<close>

datatype attempt = Found pem_Block | NoBlock | Continue string int

definition decodeAt :: "string \<Rightarrow> attempt" where
  "decodeAt rest0 =
     (case Index rest0 pemEnd of
        None \<Rightarrow> NoBlock
      | Some i \<Rightarrow>
          let endIndex0 = int i;
              endTrailerIndex0 = endIndex0 + int (length pemEnd)
          in
          (case LastIndex (take i rest0) (tl pemStart) of
             None \<Rightarrow> Continue rest0 endTrailerIndex0
           | Some beginIndex \<Rightarrow>
               if 0 < beginIndex \<and> rest0 ! (beginIndex - 1) \<noteq> LF
               then Continue rest0 endTrailerIndex0
               else
                 let skip = beginIndex + length pemStart - 1;
                     rest1 = drop skip rest0;
                     endIndex1 = endIndex0 - int skip;
                     endTrailerIndex1 = endTrailerIndex0 - int skip
                 in
                 (case getLine rest1 of
                    (typeLine0, rest2, consumed) \<Rightarrow>
                      if \<not> suffix pemEndOfLine typeLine0 then Continue rest2 endTrailerIndex1
                      else
                        let typeLine = take (length typeLine0 - length pemEndOfLine) typeLine0;
                            endIndex2 = endIndex1 - int consumed;
                            endTrailerIndex2 = endTrailerIndex1 - int consumed
                        in
                        (case headerLines rest2 False endIndex2 endTrailerIndex2 of
                           None \<Rightarrow> NoBlock
                         | Some (rest, hdrs, endIndex, endTrailerIndex) \<Rightarrow>
                             if hdrs \<and> endIndex < 0 then Continue rest endTrailerIndex
                             else
                               let endTrailer0 = drop (nat endTrailerIndex) rest;
                                   endTrailerLen = length typeLine + length pemEndOfLine
                               in
                               if length endTrailer0 < endTrailerLen
                               then Continue rest endTrailerIndex
                               else
                                 let restOfEndLine = drop endTrailerLen endTrailer0;
                                     endTrailer = take endTrailerLen endTrailer0
                                 in
                                 if \<not> (prefix typeLine endTrailer \<and>
                                        suffix pemEndOfLine endTrailer)
                                 then Continue rest endTrailerIndex
                                 else if fst (getLine restOfEndLine) \<noteq> []
                                 then Continue rest endTrailerIndex
                                 else
                                   (case (if 0 < endIndex
                                          then DecodeString
                                                 (removeSpacesAndTabs (take (nat endIndex) rest))
                                          else Some []) of
                                      None \<Rightarrow> Continue rest endTrailerIndex
                                    | Some bs \<Rightarrow> Found \<lparr>Type = typeLine, Bytes = bs\<rparr>)))))"

text \<open>
  \<^verbatim>\<open>pem.Decode\<close>, first result: the next block found in \<open>data\<close>, if any. Each
  pass starts \<^verbatim>\<open>endTrailerIndex\<close> bytes further, behind the END marker of the
  pass before.
\<close>

function Decode_loop :: "string \<Rightarrow> int \<Rightarrow> pem_Block option" where
  "Decode_loop rest endTrailerIndex =
     (if endTrailerIndex < 0 \<or> int (length rest) < endTrailerIndex then None
      else (case decodeAt (drop (nat endTrailerIndex) rest) of
              Found p \<Rightarrow> Some p
            | NoBlock \<Rightarrow> None
            | Continue rest' endTrailerIndex' \<Rightarrow> Decode_loop rest' endTrailerIndex'))"
  by pat_completeness auto
termination
proof (relation "measure (\<lambda>(rest, e). if e < 0 \<or> int (length rest) < e then 0
                                        else Suc (length rest - nat e))")
  fix rest rest' :: string and e e' :: int
  assume ok: "\<not> (e < 0 \<or> int (length rest) < e)"
    and da: "decodeAt (drop (nat e) rest) = Continue rest' e'"
  define r where "r = drop (nat e) rest"
  have idx: "IndexByte xs LF = Some i \<Longrightarrow> i < length xs" for xs i
    by (induction xs arbitrary: i) (auto split: if_splits)
  have gl: "length (fst (snd (getLine xs))) \<le> length xs" for xs
    by (cases "IndexByte xs LF") (simp_all add: getLine_def Let_def)
  have hl: "headerLines xs b m n = Some (ys, c, m', n') \<Longrightarrow> length ys \<le> length xs"
    for xs b m n ys c m' n'
  proof (induction xs b m n rule: headerLines.induct)
    case (1 rest seen endIndex endTrailerIndex)
    show ?case
    proof (cases "rest = []")
      case True
      with "1.prems" show ?thesis by (simp add: headerLines.simps)
    next
      case False
      obtain line nxt consumed where g: "getLine rest = (line, nxt, consumed)"
        by (cases "getLine rest")
      show ?thesis
      proof (cases "CHR '':'' \<in> set line")
        case True
        with False g "1.prems"
        have "headerLines nxt True (endIndex - int consumed) (endTrailerIndex - int consumed)
              = Some (ys, c, m', n')"
          by (simp add: headerLines.simps[of rest])
        with "1.IH"[OF False g[symmetric] refl True] have "length ys \<le> length nxt" by simp
        moreover have "length nxt \<le> length rest" using gl[of rest] g by simp
        ultimately show ?thesis by simp
      next
        case F2: False
        with False g "1.prems" show ?thesis by (simp add: headerLines.simps[of rest])
      qed
    qed
  qed
  have ix: "Index xs sep = Some i \<Longrightarrow> i + length sep \<le> length xs" for xs sep i
  proof (induction xs arbitrary: i)
    case Nil
    then show ?case by (simp split: if_splits)
  next
    case (Cons x xs)
    show ?case
    proof (cases "prefix sep (x # xs)")
      case True
      with Cons.prems prefix_length_le[OF True] show ?thesis by simp
    next
      case F: False
      with Cons.prems obtain k where "Index xs sep = Some k" "i = Suc k" by auto
      with Cons.IH[of k] show ?thesis by simp
    qed
  qed
  have da2: "decodeAt r = Continue rest' e'" using da by (simp only: r_def)
  from da obtain i where i: "Index r pemEnd = Some i"
    by (cases "Index r pemEnd") (simp_all add: decodeAt_def r_def)
  from ix[OF i] have rl: "i + length pemEnd \<le> length r" .
  then have rne: "0 < length r" by (cases r) (simp_all add: pemEnd_def)
  have key: "length rest' \<le> length r \<and> (0 < e' \<or> length rest' < length r)"
  proof (cases "LastIndex (take i r) (tl pemStart)")
    case None
    with da2 i show ?thesis by (simp add: decodeAt_def Let_def pemEnd_def)
  next
    case (Some b)
    show ?thesis
    proof (cases "0 < b \<and> r ! (b - 1) \<noteq> LF")
      case True
      with da2 i Some show ?thesis by (simp add: decodeAt_def Let_def pemEnd_def)
    next
      case False
      define r1 where "r1 = drop (b + length pemStart - 1) r"
      have r1: "length r1 < length r" using rne by (simp add: r1_def pemStart_def)
      obtain tl0 r2 cons where g: "getLine r1 = (tl0, r2, cons)" by (cases "getLine r1")
      have r2: "length r2 \<le> length r1" using gl[of r1] g by simp
      note da3 = da2[unfolded decodeAt_def i Some option.case Let_def if_not_P[OF False]
                     r1_def[symmetric] g prod.case]
      show ?thesis
      proof (cases "suffix pemEndOfLine tl0")
        case F: False
        with da3 r1 r2 show ?thesis by simp
      next
        case True
        let ?h = "headerLines r2 False
                    (int i - int (b + length pemStart - 1) - int cons)
                    (int i + int (length pemEnd) - int (b + length pemStart - 1) - int cons)"
        note da4 = da3[unfolded not_not if_P[OF True] if_False]
        show ?thesis
        proof (cases ?h)
          case None
          with da4 True show ?thesis by simp
        next
          case Some2: (Some p)
          obtain r3 h m n where p: "p = (r3, h, m, n)" by (cases p)
          have "length r3 \<le> length r2" using hl Some2 p by simp
          moreover have "rest' = r3"
            using da4 True Some2 p
            by (simp split: option.splits if_splits)
          ultimately show ?thesis using r1 r2 by simp
        qed
      qed
    qed
  qed
  have "length r = length rest - nat e" by (simp add: r_def)
  with key ok
  show "((rest', e'), rest, e)
        \<in> measure (\<lambda>(rest, e). if e < 0 \<or> int (length rest) < e then 0
                                 else Suc (length rest - nat e))"
    by auto
qed simp

declare Decode_loop.simps [simp del]

definition pem_Decode :: "string \<Rightarrow> pem_Block option" where
  "pem_Decode data = Decode_loop data 0"

section \<open>Keys, certificate templates, time\<close>

text \<open>
  The values the program hands to \<^verbatim>\<open>crypto/ecdsa\<close> and \<^verbatim>\<open>crypto/x509\<close>. An
  \<^verbatim>\<open>ecdsa.PrivateKey\<close> embeds its public key; \<^verbatim>\<open>&caPriv.PublicKey\<close> is the field
  \<open>PublicKey\<close>. Of \<^verbatim>\<open>x509.Certificate\<close> the fields that the program sets are kept;
  a field that a composite literal leaves out has Go's zero value (\<open>False\<close>, the
  empty list). A \<^verbatim>\<open>net.IP\<close> is a byte slice, \<open>[]\<close> standing for \<^verbatim>\<open>nil\<close>.
\<close>

datatype curve = P224 | P256 | P384 | P521

record ecdsa_PublicKey =
  Curve :: curve
  PubX :: int
  PubY :: int

record ecdsa_PrivateKey =
  PublicKey :: ecdsa_PublicKey
  PrivD :: int

record pkix_Name =
  Organization :: "string list"
  CommonName :: string

datatype ExtKeyUsage = ExtKeyUsageAny | ExtKeyUsageServerAuth | ExtKeyUsageClientAuth

type_synonym IP = bytes

record Certificate =
  SerialNumber :: int
  Subject :: pkix_Name
  NotBefore :: int
  NotAfter :: int
  KeyUsage :: nat
  ExtKeyUsage :: "ExtKeyUsage list"
  BasicConstraintsValid :: bool
  IsCA :: bool
  IPAddresses :: "IP list"

text \<open>The bits of \<^verbatim>\<open>x509.KeyUsage\<close> (\<^verbatim>\<open>1 << iota\<close>) that the program uses.\<close>

definition KeyUsageDigitalSignature :: nat where
  "KeyUsageDigitalSignature = 1"

definition KeyUsageKeyEncipherment :: nat where
  "KeyUsageKeyEncipherment = 4"

definition KeyUsageCertSign :: nat where
  "KeyUsageCertSign = 32"

text \<open>
  A \<^verbatim>\<open>time.Time\<close> is the number of nanoseconds since the Unix epoch, a
  \<^verbatim>\<open>time.Duration\<close> a number of nanoseconds, both unbounded integers here (the
  values stay far inside 64 bits). \<^verbatim>\<open>t.Add(d)\<close> is \<open>t + d\<close>, \<^verbatim>\<open>t.Unix()\<close> the whole
  seconds.
\<close>

definition Hour :: int where
  "Hour = 3600000000000"

definition Unix :: "int \<Rightarrow> int" where
  "Unix t = t div 1000000000"

text \<open>
  \<^verbatim>\<open>x509.CreateCertificate(rand, template, parent, pub, priv)\<close> names the parent's
  subject as the issuer of the new certificate and signs with \<open>priv\<close>.
\<close>

definition Issuer :: "Certificate \<Rightarrow> Certificate \<Rightarrow> pkix_Name" where
  "Issuer template parent = Subject parent"

section \<open>The world outside the program\<close>

text \<open>
  Every call that leaves the program is an event; the trace lists the events in the
  order they happened. What the outside answers is not the program's to decide: the
  environment \<open>E\<close> gives the answer of each call, indexed by the number of events
  before it, so that two calls with equal arguments may be answered differently. An
  error is the text that \<^verbatim>\<open>err.Error()\<close> prints, as \<^verbatim>\<open>fmt.Errorf("...: %v", err)\<close>
  embeds it. Progress messages on standard output and the closing of files are not
  modelled.
\<close>

type_synonym error = string

datatype event =
    EvExec "string list"
  | EvStat string
  | EvMkdirTemp string string
  | EvRemoveAll string
  | EvReadFile string
  | EvCreate string
  | EvWrite string bytes
  | EvNow
  | EvGenerateKey curve
  | EvCreateCertificate Certificate Certificate ecdsa_PublicKey ecdsa_PrivateKey

record world =
  files :: "string \<rightharpoonup> bytes"
  trace :: "event list"

text \<open>
  The ways in which \<^verbatim>\<open>os.Stat\<close> fails. \<^verbatim>\<open>os.IsNotExist\<close> is true of the
  first one only.
\<close>

datatype errno = ENOENT | ENOTDIR | EACCES | ENAMETOOLONG | ELOOP | EIO

record env =
  env_Now :: "nat \<Rightarrow> int"
  env_Run :: "nat \<Rightarrow> string list \<Rightarrow> error option"
  env_Stat :: "nat \<Rightarrow> string \<Rightarrow> errno"
  env_container_file :: "nat \<Rightarrow> string \<Rightarrow> string \<Rightarrow> bytes"
  env_MkdirTemp :: "nat \<Rightarrow> string \<Rightarrow> string \<Rightarrow> error + string"
  env_Create :: "nat \<Rightarrow> string \<Rightarrow> error option"
  env_Write :: "nat \<Rightarrow> string \<Rightarrow> error option"
  env_GenerateKey :: "nat \<Rightarrow> curve \<Rightarrow> error + ecdsa_PrivateKey"
  env_CreateCertificate ::
    "nat \<Rightarrow> Certificate \<Rightarrow> Certificate \<Rightarrow> ecdsa_PublicKey \<Rightarrow> ecdsa_PrivateKey \<Rightarrow> error + bytes"
  env_MarshalECPrivateKey :: "ecdsa_PrivateKey \<Rightarrow> error + bytes"
  env_ParseCertificate :: "bytes \<Rightarrow> error + Certificate"
  env_ParseECPrivateKey :: "bytes \<Rightarrow> error + ecdsa_PrivateKey"
  env_ParseIP :: "string \<Rightarrow> IP"

definition step :: "world \<Rightarrow> nat" where
  "step w = length (trace w)"

definition emit :: "event \<Rightarrow> world \<Rightarrow> world" where
  "emit e w = w\<lparr>trace := trace w @ [e]\<rparr>"

text \<open>\<^verbatim>\<open>time.Now()\<close>.\<close>

definition time_Now :: "env \<Rightarrow> world \<Rightarrow> int \<times> world" where
  "time_Now E w = (env_Now E (step w), emit EvNow w)"

text \<open>\<^verbatim>\<open>exec.Command(argv...).Run()\<close>: \<open>None\<close> is exit status zero.\<close>

definition exec_Run :: "env \<Rightarrow> string list \<Rightarrow> world \<Rightarrow> error option \<times> world" where
  "exec_Run E argv w = (env_Run E (step w) argv, emit (EvExec argv) w)"

text \<open>
  \<^verbatim>\<open>os.Stat(path)\<close>, its error: none when the world holds a file at the path;
  otherwise the call fails, and the environment tells how (no such file, a path
  component that is not a directory, no permission, ...).
\<close>

definition os_Stat :: "env \<Rightarrow> string \<Rightarrow> world \<Rightarrow> errno option \<times> world" where
  "os_Stat E path w =
     (case files w path of
        Some data \<Rightarrow> None
      | None \<Rightarrow> Some (env_Stat E (step w) path),
      emit (EvStat path) w)"

definition os_IsNotExist :: "errno option \<Rightarrow> bool" where
  "os_IsNotExist err = (err = Some ENOENT)"

text \<open>\<^verbatim>\<open>_, err := os.Stat(path); os.IsNotExist(err)\<close>, the condition of both callers.\<close>

definition Stat_IsNotExist :: "env \<Rightarrow> string \<Rightarrow> world \<Rightarrow> bool \<times> world" where
  "Stat_IsNotExist E path w =
     (case os_Stat E path w of (err, w') \<Rightarrow> (os_IsNotExist err, w'))"

definition os_MkdirTemp :: "env \<Rightarrow> string \<Rightarrow> string \<Rightarrow> world \<Rightarrow> (error + string) \<times> world" where
  "os_MkdirTemp E dir pattern w =
     (env_MkdirTemp E (step w) dir pattern, emit (EvMkdirTemp dir pattern) w)"

text \<open>\<^verbatim>\<open>os.RemoveAll(path)\<close>: the path and everything below it are gone.\<close>

definition os_RemoveAll :: "string \<Rightarrow> world \<Rightarrow> world" where
  "os_RemoveAll path w =
     emit (EvRemoveAll path)
       (w\<lparr>files := (\<lambda>p. if p = path \<or> prefix (path @ ''/'') p then None else files w p)\<rparr>)"

definition os_ReadFile :: "string \<Rightarrow> world \<Rightarrow> (error + bytes) \<times> world" where
  "os_ReadFile path w =
     (case files w path of
        None \<Rightarrow> Inl (''open '' @ path @ '': no such file or directory'')
      | Some data \<Rightarrow> Inr data,
      emit (EvReadFile path) w)"

text \<open>\<^verbatim>\<open>os.Create(path)\<close>: on success the file exists and is empty.\<close>

definition os_Create :: "env \<Rightarrow> string \<Rightarrow> world \<Rightarrow> error option \<times> world" where
  "os_Create E path w =
     (case env_Create E (step w) path of
        Some err \<Rightarrow> (Some err, emit (EvCreate path) w)
      | None \<Rightarrow> (None, emit (EvCreate path) (w\<lparr>files := (files w)(path \<mapsto> [])\<rparr>)))"

text \<open>
  Writing \<open>data\<close> to the file opened at \<open>path\<close>, as \<^verbatim>\<open>pem.Encode\<close> and
  \<^verbatim>\<open>tmpl.Execute\<close> do; the writes of one call are taken together. A write that
  fails is modelled as writing nothing.
\<close>

definition file_Write :: "env \<Rightarrow> string \<Rightarrow> bytes \<Rightarrow> world \<Rightarrow> error option \<times> world" where
  "file_Write E path data w =
     (case env_Write E (step w) path of
        Some err \<Rightarrow> (Some err, emit (EvWrite path data) w)
      | None \<Rightarrow>
          (None,
           emit (EvWrite path data)
             (w\<lparr>files := (files w)(path \<mapsto>
                    (case files w path of None \<Rightarrow> data | Some old \<Rightarrow> old @ data))\<rparr>)))"

definition ecdsa_GenerateKey :: "env \<Rightarrow> curve \<Rightarrow> world \<Rightarrow> (error + ecdsa_PrivateKey) \<times> world" where
  "ecdsa_GenerateKey E c w = (env_GenerateKey E (step w) c, emit (EvGenerateKey c) w)"

definition x509_CreateCertificate ::
  "env \<Rightarrow> Certificate \<Rightarrow> Certificate \<Rightarrow> ecdsa_PublicKey \<Rightarrow> ecdsa_PrivateKey \<Rightarrow> world \<Rightarrow>
   (error + bytes) \<times> world" where
  "x509_CreateCertificate E template parent pub priv w =
     (env_CreateCertificate E (step w) template parent pub priv,
      emit (EvCreateCertificate template parent pub priv) w)"

text \<open>\<^verbatim>\<open>filepath.Join(dir, name)\<close> for a clean directory and a plain file name.\<close>

definition filepath_Join :: "string \<Rightarrow> string \<Rightarrow> string" where
  "filepath_Join dir name = dir @ ''/'' @ name"

section \<open>Certificate issuance\<close>

unbundle bit_operations_syntax

text \<open>\<^verbatim>\<open>writePEMFile\<close>: create the file, encode one block into it.\<close>

definition writePEMFile :: "env \<Rightarrow> string \<Rightarrow> string \<Rightarrow> bytes \<Rightarrow> world \<Rightarrow> error option \<times> world" where
  "writePEMFile E path blockType data w =
     (case os_Create E path w of
        (Some err, w1) \<Rightarrow> (Some err, w1)
      | (None, w1) \<Rightarrow> file_Write E path (EncodeToMemory \<lparr>Type = blockType, Bytes = data\<rparr>) w1)"

text \<open>
  The three composite literals for certificate templates, as functions of what they
  read: the clock readings, in the order of the fields, and the parsed host address.
  \<open>caTemplate\<close> and \<open>clientTemplate\<close> are the literals of
  \<^verbatim>\<open>GenerateSelfSignedCAWithSAN\<close>, \<open>clientCertTemplate\<close> is the one of
  \<^verbatim>\<open>GenerateClientCert\<close>.
\<close>

definition caTemplate :: "int \<Rightarrow> int \<Rightarrow> IP \<Rightarrow> Certificate" where
  "caTemplate now1 now2 ip =
     \<lparr>SerialNumber = 1,
      Subject = \<lparr>Organization = [''Kubernetes''], CommonName = ''Kubernetes CA''\<rparr>,
      NotBefore = now1,
      NotAfter = now2 + 365 * 24 * Hour,
      KeyUsage = KeyUsageCertSign OR KeyUsageDigitalSignature,
      ExtKeyUsage = [],
      BasicConstraintsValid = True,
      IsCA = True,
      IPAddresses = [ip]\<rparr>"

definition clientTemplate :: "int \<Rightarrow> int \<Rightarrow> IP \<Rightarrow> Certificate" where
  "clientTemplate now1 now2 ip =
     \<lparr>SerialNumber = 2,
      Subject = \<lparr>Organization = [''Kubernetes''], CommonName = ''Kubernetes Client''\<rparr>,
      NotBefore = now1,
      NotAfter = now2 + 365 * 24 * Hour,
      KeyUsage = KeyUsageDigitalSignature OR KeyUsageKeyEncipherment,
      ExtKeyUsage = [ExtKeyUsageClientAuth],
      BasicConstraintsValid = False,
      IsCA = False,
      IPAddresses = [ip]\<rparr>"

definition clientCertTemplate :: "int \<Rightarrow> int \<Rightarrow> int \<Rightarrow> IP \<Rightarrow> Certificate" where
  "clientCertTemplate now0 now1 now2 ip =
     \<lparr>SerialNumber = Unix now0,
      Subject = \<lparr>Organization = [''Kubernetes''], CommonName = ''Kubernetes Client''\<rparr>,
      NotBefore = now1,
      NotAfter = now2 + 365 * 24 * Hour,
      KeyUsage = KeyUsageDigitalSignature OR KeyUsageKeyEncipherment,
      ExtKeyUsage = [ExtKeyUsageClientAuth],
      BasicConstraintsValid = False,
      IsCA = False,
      IPAddresses = [ip]\<rparr>"

text \<open>
  \<^verbatim>\<open>GenerateSelfSignedCAWithSAN\<close>: a CA key and its self-signed certificate, then a
  client key and a certificate for it signed by the CA, each written as a PEM file.
  The first failure ends the function with its wrapped message.
\<close>

definition GenerateSelfSignedCAWithSAN ::
  "env \<Rightarrow> string \<Rightarrow> string \<Rightarrow> string \<Rightarrow> string \<Rightarrow> string \<Rightarrow> world \<Rightarrow> error option \<times> world" where
  "GenerateSelfSignedCAWithSAN E caCertPath caKeyPath clientCertPath clientKeyPath hostIP w0 =
     (case ecdsa_GenerateKey E P256 w0 of
        (Inl err, w1) \<Rightarrow> (Some (''failed to generate CA private key: '' @ err), w1)
      | (Inr caPriv, w1) \<Rightarrow>
     (case time_Now E w1 of (now1, w2) \<Rightarrow>
     (case time_Now E w2 of (now2, w3) \<Rightarrow>
     (case x509_CreateCertificate E (caTemplate now1 now2 (env_ParseIP E hostIP))
             (caTemplate now1 now2 (env_ParseIP E hostIP)) (PublicKey caPriv) caPriv w3 of
        (Inl err, w4) \<Rightarrow> (Some (''failed to create CA certificate: '' @ err), w4)
      | (Inr caCertDER, w4) \<Rightarrow>
     (case writePEMFile E caCertPath ''CERTIFICATE'' caCertDER w4 of
        (Some err, w5) \<Rightarrow> (Some (''failed to write CA certificate: '' @ err), w5)
      | (None, w5) \<Rightarrow>
     (case env_MarshalECPrivateKey E caPriv of
        Inl err \<Rightarrow> (Some (''failed to marshal CA private key: '' @ err), w5)
      | Inr caPrivBytes \<Rightarrow>
     (case writePEMFile E caKeyPath ''EC PRIVATE KEY'' caPrivBytes w5 of
        (Some err, w6) \<Rightarrow> (Some (''failed to write CA private key: '' @ err), w6)
      | (None, w6) \<Rightarrow>
     (case ecdsa_GenerateKey E P256 w6 of
        (Inl err, w7) \<Rightarrow> (Some (''failed to generate client private key: '' @ err), w7)
      | (Inr clientPriv, w7) \<Rightarrow>
     (case time_Now E w7 of (now3, w8) \<Rightarrow>
     (case time_Now E w8 of (now4, w9) \<Rightarrow>
     (case x509_CreateCertificate E (clientTemplate now3 now4 (env_ParseIP E hostIP))
             (caTemplate now1 now2 (env_ParseIP E hostIP)) (PublicKey clientPriv) caPriv w9 of
        (Inl err, w10) \<Rightarrow> (Some (''failed to create client certificate: '' @ err), w10)
      | (Inr clientCertDER, w10) \<Rightarrow>
     (case writePEMFile E clientCertPath ''CERTIFICATE'' clientCertDER w10 of
        (Some err, w11) \<Rightarrow> (Some (''failed to write client certificate: '' @ err), w11)
      | (None, w11) \<Rightarrow>
     (case env_MarshalECPrivateKey E clientPriv of
        Inl err \<Rightarrow> (Some (''failed to marshal client private key: '' @ err), w11)
      | Inr clientPrivBytes \<Rightarrow>
     (case writePEMFile E clientKeyPath ''EC PRIVATE KEY'' clientPrivBytes w11 of
        (Some err, w12) \<Rightarrow> (Some (''failed to write client private key: '' @ err), w12)
      | (None, w12) \<Rightarrow> (None, w12)))))))))))))))"

text \<open>
  \<^verbatim>\<open>GenerateClientCert\<close>: a client certificate signed by a CA that is read back from
  its PEM files. Its serial number is the clock's reading in whole seconds.
\<close>

definition GenerateClientCert ::
  "env \<Rightarrow> string \<Rightarrow> string \<Rightarrow> string \<Rightarrow> string \<Rightarrow> string \<Rightarrow> world \<Rightarrow> error option \<times> world" where
  "GenerateClientCert E caCertPath caKeyPath clientCertPath clientKeyPath hostIP w0 =
     (case os_ReadFile caCertPath w0 of
        (Inl err, w1) \<Rightarrow> (Some (''failed to read CA certificate: '' @ err), w1)
      | (Inr caCertPEM, w1) \<Rightarrow>
     (case pem_Decode caCertPEM of
        None \<Rightarrow> (Some ''failed to decode CA certificate PEM'', w1)
      | Some caCertBlock \<Rightarrow>
     (case env_ParseCertificate E (Bytes caCertBlock) of
        Inl err \<Rightarrow> (Some (''failed to parse CA certificate: '' @ err), w1)
      | Inr caCert \<Rightarrow>
     (case os_ReadFile caKeyPath w1 of
        (Inl err, w2) \<Rightarrow> (Some (''failed to read CA private key: '' @ err), w2)
      | (Inr caKeyPEM, w2) \<Rightarrow>
     (case pem_Decode caKeyPEM of
        None \<Rightarrow> (Some ''failed to decode CA private key PEM'', w2)
      | Some caKeyBlock \<Rightarrow>
     (case env_ParseECPrivateKey E (Bytes caKeyBlock) of
        Inl err \<Rightarrow> (Some (''failed to parse CA private key: '' @ err), w2)
      | Inr caKey \<Rightarrow>
     (case ecdsa_GenerateKey E P256 w2 of
        (Inl err, w3) \<Rightarrow> (Some (''failed to generate client private key: '' @ err), w3)
      | (Inr clientKey, w3) \<Rightarrow>
     (case time_Now E w3 of (now0, w4) \<Rightarrow>
     (case time_Now E w4 of (now1, w5) \<Rightarrow>
     (case time_Now E w5 of (now2, w6) \<Rightarrow>
     (case x509_CreateCertificate E (clientCertTemplate now0 now1 now2 (env_ParseIP E hostIP))
             caCert (PublicKey clientKey) caKey w6 of
        (Inl err, w7) \<Rightarrow> (Some (''failed to create client certificate: '' @ err), w7)
      | (Inr clientCertDER, w7) \<Rightarrow>
     (case os_Create E clientCertPath w7 of
        (Some err, w8) \<Rightarrow> (Some (''failed to create client certificate file: '' @ err), w8)
      | (None, w8) \<Rightarrow>
     (case file_Write E clientCertPath
             (EncodeToMemory \<lparr>Type = ''CERTIFICATE'', Bytes = clientCertDER\<rparr>) w8 of
        (Some err, w9) \<Rightarrow> (Some (''failed to encode client certificate to PEM: '' @ err), w9)
      | (None, w9) \<Rightarrow>
     (case env_MarshalECPrivateKey E clientKey of
        Inl err \<Rightarrow> (Some (''failed to marshal client private key: '' @ err), w9)
      | Inr clientKeyBytes \<Rightarrow>
     (case os_Create E clientKeyPath w9 of
        (Some err, w10) \<Rightarrow> (Some (''failed to create client private key file: '' @ err), w10)
      | (None, w10) \<Rightarrow>
     (case file_Write E clientKeyPath
             (EncodeToMemory \<lparr>Type = ''EC PRIVATE KEY'', Bytes = clientKeyBytes\<rparr>) w10 of
        (Some err, w11) \<Rightarrow>
          (Some (''failed to encode client private key to PEM: '' @ err), w11)
      | (None, w11) \<Rightarrow> (None, w11)))))))))))))))))"

section \<open>Moving the artifacts into the volume\<close>

text \<open>
  \<^verbatim>\<open>GenerateSelfSignedCAInVolume\<close>: issue into a temporary directory, then copy
  its files into the volume with a helper container. The deferred
  \<^verbatim>\<open>os.RemoveAll(tempDir)\<close> runs however the rest of the function ends.
\<close>

definition copyIntoVolume_argv :: "string \<Rightarrow> string \<Rightarrow> string \<Rightarrow> string list" where
  "copyIntoVolume_argv volumeName volumeCertDir tempDir =
     [''docker'', ''run'', ''--rm'',
      ''-v'', volumeName @ '':'' @ volumeCertDir,
      ''-v'', tempDir @ '':/tmp/certs'',
      ''alpine'', ''sh'', ''-c'', ''cp /tmp/certs/* /certs/'']"

definition GenerateSelfSignedCAInVolume_body ::
  "env \<Rightarrow> string \<Rightarrow> string \<Rightarrow> string \<Rightarrow> string \<Rightarrow> world \<Rightarrow> error option \<times> world" where
  "GenerateSelfSignedCAInVolume_body E volumeName volumeCertDir hostIP tempDir w1 =
     (case GenerateSelfSignedCAWithSAN E
             (filepath_Join tempDir ''ca.crt'') (filepath_Join tempDir ''ca.key'')
             (filepath_Join tempDir ''client.crt'') (filepath_Join tempDir ''client.key'')
             hostIP w1 of
        (Some err, w2) \<Rightarrow>
          (Some (''failed to generate self-signed CA and client certificates: '' @ err), w2)
      | (None, w2) \<Rightarrow>
     (case exec_Run E (copyIntoVolume_argv volumeName volumeCertDir tempDir) w2 of
        (Some err, w3) \<Rightarrow>
          (Some (''failed to copy certificates and keys into Docker volume: '' @ err), w3)
      | (None, w3) \<Rightarrow> (None, w3)))"

definition GenerateSelfSignedCAInVolume ::
  "env \<Rightarrow> string \<Rightarrow> string \<Rightarrow> string \<Rightarrow> world \<Rightarrow> error option \<times> world" where
  "GenerateSelfSignedCAInVolume E volumeName volumeCertDir hostIP w0 =
     (case os_MkdirTemp E [] ''kube-apiserver-certs'' w0 of
        (Inl err, w1) \<Rightarrow> (Some (''failed to create temporary directory: '' @ err), w1)
      | (Inr tempDir, w1) \<Rightarrow>
     (case GenerateSelfSignedCAInVolume_body E volumeName volumeCertDir hostIP tempDir w1 of
        (r, w2) \<Rightarrow> (r, os_RemoveAll tempDir w2)))"

section \<open>Restoring a snapshot and starting the API server\<close>

text \<open>
  \<^verbatim>\<open>RestoreEtcdSnapshot\<close>. The removals of an old container and an old volume are the
  two calls whose error is dropped (\<^verbatim>\<open>_ = cmd.Run()\<close>).
\<close>

definition restore_argv :: "string \<Rightarrow> string \<Rightarrow> string \<Rightarrow> string list" where
  "restore_argv snapshotPath containerName volumeName =
     [''docker'', ''run'', ''--rm'', ''--name'', containerName,
      ''-v'', snapshotPath @ '':/snapshot.db'',
      ''-v'', volumeName @ '':/etcd-data'',
      ''quay.io/coreos/etcd:v3.5.7'',
      ''/usr/local/bin/etcdutl'', ''snapshot'', ''restore'',
      ''/snapshot.db'', ''--data-dir=/etcd-data'']"

definition RestoreEtcdSnapshot ::
  "env \<Rightarrow> string \<Rightarrow> string \<Rightarrow> string \<Rightarrow> world \<Rightarrow> error option \<times> world" where
  "RestoreEtcdSnapshot E snapshotPath containerName volumeName w0 =
     (case Stat_IsNotExist E snapshotPath w0 of
        (True, w1) \<Rightarrow> (Some (''snapshot file not found: '' @ snapshotPath), w1)
      | (False, w1) \<Rightarrow>
     (case exec_Run E [''docker'', ''pull'', ''quay.io/coreos/etcd:v3.5.7''] w1 of
        (Some err, w2) \<Rightarrow> (Some (''failed to pull etcd Docker image: '' @ err), w2)
      | (None, w2) \<Rightarrow>
     (case exec_Run E [''docker'', ''rm'', ''-f'', containerName] w2 of (_, w3) \<Rightarrow>
     (case exec_Run E [''docker'', ''volume'', ''rm'', volumeName] w3 of (_, w4) \<Rightarrow>
     (case exec_Run E [''docker'', ''volume'', ''create'', volumeName] w4 of
        (Some err, w5) \<Rightarrow> (Some (''failed to create Docker volume: '' @ err), w5)
      | (None, w5) \<Rightarrow>
     (case exec_Run E (restore_argv snapshotPath containerName volumeName) w5 of
        (Some err, w6) \<Rightarrow> (Some (''failed to restore snapshot: '' @ err), w6)
      | (None, w6) \<Rightarrow> (None, w6)))))))"

text \<open>
  \<^verbatim>\<open>StartKubeAPIServer\<close>. The command line of the server container is the one of the
  source, flag for flag, with \<open>caCertPath\<close> and \<open>caKeyPath\<close> the two joined paths
  below \<^verbatim>\<open>/certs\<close>. The parameter \<open>outputDir\<close> is not used by the source.
\<close>

definition apiserver_argv :: "string \<Rightarrow> string \<Rightarrow> string \<Rightarrow> string list" where
  "apiserver_argv etcdEndpoint containerName volumeName =
     (let volumeCertDir = ''/certs'';
          caCertPath = filepath_Join volumeCertDir ''ca.crt'';
          caKeyPath = filepath_Join volumeCertDir ''ca.key'';
          encryptionConfigPath = ''./encryption-config.json''
      in [''docker'', ''run'', ''-d'', ''--name'', containerName,
          ''--network'', ''host'',
          ''-v'', volumeName @ '':'' @ volumeCertDir,
          ''-v'', encryptionConfigPath @ '':/etc/kubernetes/encryption-config.json'',
          ''k8s.gcr.io/kube-apiserver:v1.27.1'',
          ''/usr/local/bin/kube-apiserver'',
          ''--etcd-servers='' @ etcdEndpoint,
          ''--service-cluster-ip-range=10.96.0.0/12'',
          ''--allow-privileged=true'',
          ''--anonymous-auth=true'',
          ''--advertise-address=0.0.0.0'',
          ''--service-account-signing-key-file='' @ caKeyPath,
          ''--service-account-issuer=https://kubernetes.default.svc.cluster.local'',
          ''--service-account-key-file='' @ caCertPath,
          ''--tls-cert-file='' @ caCertPath,
          ''--tls-private-key-file='' @ caKeyPath,
          ''--client-ca-file='' @ caCertPath,
          ''--tls-cert-file='' @ caCertPath,
          ''--tls-private-key-file='' @ caKeyPath,
          ''--v=2''])"

definition StartKubeAPIServer ::
  "env \<Rightarrow> string \<Rightarrow> string \<Rightarrow> string \<Rightarrow> string \<Rightarrow> string \<Rightarrow> world \<Rightarrow> error option \<times> world" where
  "StartKubeAPIServer E etcdEndpoint containerName volumeName hostIP outputDir w0 =
     (case exec_Run E [''docker'', ''rm'', ''-f'', containerName] w0 of (_, w1) \<Rightarrow>
     if etcdEndpoint = [] then (Some ''etcd endpoint is required to start kube-apiserver'', w1)
     else
     (case exec_Run E [''docker'', ''volume'', ''create'', volumeName] w1 of
        (Some err, w2) \<Rightarrow> (Some (''failed to create Docker volume: '' @ err), w2)
      | (None, w2) \<Rightarrow>
     (case GenerateSelfSignedCAInVolume E volumeName ''/certs'' hostIP w2 of
        (Some err, w3) \<Rightarrow> (Some (''error generating self-signed CA: '' @ err), w3)
      | (None, w3) \<Rightarrow>
     (case Stat_IsNotExist E ''./encryption-config.json'' w3 of
        (True, w4) \<Rightarrow>
          (Some (''encryption configuration file not found at '' @ ''./encryption-config.json''),
           w4)
      | (False, w4) \<Rightarrow>
     (case exec_Run E (apiserver_argv etcdEndpoint containerName volumeName) w4 of
        (Some err, w5) \<Rightarrow> (Some (''failed to start kube-apiserver: '' @ err), w5)
      | (None, w5) \<Rightarrow> (None, w5))))))"

section \<open>Kubeconfig\<close>

text \<open>
  \<^verbatim>\<open>copyFileFromContainer\<close> runs \<^verbatim>\<open>docker cp container:path localPath\<close>. When the
  command succeeds, the local file holds what the container has at the path; when it
  fails, no local file is written.
\<close>

definition copyFileFromContainer ::
  "env \<Rightarrow> string \<Rightarrow> string \<Rightarrow> string \<Rightarrow> world \<Rightarrow> error option \<times> world" where
  "copyFileFromContainer E containerName containerPath localPath w =
     (case exec_Run E [''docker'', ''cp'', containerName @ '':'' @ containerPath, localPath] w of
        (Some err, w1) \<Rightarrow> (Some (''failed to copy file from container: '' @ err), w1)
      | (None, w1) \<Rightarrow>
          (None,
           w1\<lparr>files := (files w1)(localPath \<mapsto>
                  env_container_file E (step w) containerName containerPath)\<rparr>))"

text \<open>
  The template of the source with its four fields filled in. \<^verbatim>\<open>text/template\<close>
  prints a string field as it is.
\<close>

definition kubeconfigTemplate :: "string \<Rightarrow> string \<Rightarrow> string \<Rightarrow> string \<Rightarrow> string" where
  "kubeconfigTemplate ServerURL CACertData ClientCertData ClientKeyData =
     ''\<newline>apiVersion: v1\<newline>kind: Config\<newline>clusters:\<newline>- cluster:\<newline>    server: '' @ ServerURL @
     ''\<newline>    certificate-authority-data: '' @ CACertData @
     ''\<newline>  name: kubernetes\<newline>contexts:\<newline>- context:\<newline>    cluster: kubernetes\<newline>    user: admin\<newline>  name: kubernetes\<newline>current-context: kubernetes\<newline>users:\<newline>- name: admin\<newline>  user:\<newline>    client-certificate-data: '' @ ClientCertData @
     ''\<newline>    client-key-data: '' @ ClientKeyData @ ''\<newline>''"

text \<open>
  \<^verbatim>\<open>GenerateKubeconfig\<close> after the temporary directory exists. Parsing the constant
  template cannot fail, so that branch of the source is not a branch here.
\<close>

definition GenerateKubeconfig_body ::
  "env \<Rightarrow> string \<Rightarrow> string \<Rightarrow> string \<Rightarrow> string \<Rightarrow> world \<Rightarrow> error option \<times> world" where
  "GenerateKubeconfig_body E kubeconfigPath serverURL containerName tempDir w1 =
     (case copyFileFromContainer E containerName ''/certs/ca.crt''
             (filepath_Join tempDir ''ca.crt'') w1 of
        (Some err, w2) \<Rightarrow> (Some (''failed to copy CA certificate from container: '' @ err), w2)
      | (None, w2) \<Rightarrow>
     (case copyFileFromContainer E containerName ''/certs/client.crt''
             (filepath_Join tempDir ''client.crt'') w2 of
        (Some err, w3) \<Rightarrow>
          (Some (''failed to copy client certificate from container: '' @ err), w3)
      | (None, w3) \<Rightarrow>
     (case copyFileFromContainer E containerName ''/certs/client.key''
             (filepath_Join tempDir ''client.key'') w3 of
        (Some err, w4) \<Rightarrow> (Some (''failed to copy client key from container: '' @ err), w4)
      | (None, w4) \<Rightarrow>
     (case os_ReadFile (filepath_Join tempDir ''ca.crt'') w4 of
        (Inl err, w5) \<Rightarrow> (Some (''failed to read CA certificate: '' @ err), w5)
      | (Inr caCertBytes, w5) \<Rightarrow>
     (case os_ReadFile (filepath_Join tempDir ''client.crt'') w5 of
        (Inl err, w6) \<Rightarrow> (Some (''failed to read client certificate: '' @ err), w6)
      | (Inr clientCertBytes, w6) \<Rightarrow>
     (case os_ReadFile (filepath_Join tempDir ''client.key'') w6 of
        (Inl err, w7) \<Rightarrow> (Some (''failed to read client key: '' @ err), w7)
      | (Inr clientKeyBytes, w7) \<Rightarrow>
     (case os_Create E kubeconfigPath w7 of
        (Some err, w8) \<Rightarrow> (Some (''failed to create kubeconfig file: '' @ err), w8)
      | (None, w8) \<Rightarrow>
     (case file_Write E kubeconfigPath
             (kubeconfigTemplate serverURL (EncodeToString caCertBytes)
                (EncodeToString clientCertBytes) (EncodeToString clientKeyBytes)) w8 of
        (Some err, w9) \<Rightarrow> (Some (''failed to write kubeconfig file: '' @ err), w9)
      | (None, w9) \<Rightarrow> (None, w9)))))))))"

definition GenerateKubeconfig ::
  "env \<Rightarrow> string \<Rightarrow> string \<Rightarrow> string \<Rightarrow> world \<Rightarrow> error option \<times> world" where
  "GenerateKubeconfig E kubeconfigPath serverURL containerName w0 =
     (case os_MkdirTemp E [] ''kubeconfig-certs'' w0 of
        (Inl err, w1) \<Rightarrow> (Some (''failed to create temporary directory: '' @ err), w1)
      | (Inr tempDir, w1) \<Rightarrow>
     (case GenerateKubeconfig_body E kubeconfigPath serverURL containerName tempDir w1 of
        (r, w2) \<Rightarrow> (r, os_RemoveAll tempDir w2)))"

section \<open>Reading a trace\<close>

text \<open>The calls of \<^verbatim>\<open>x509.CreateCertificate\<close> in a trace, with their arguments.\<close>

fun created ::
  "event list \<Rightarrow> (Certificate \<times> Certificate \<times> ecdsa_PublicKey \<times> ecdsa_PrivateKey) list" where
  "created [] = []"
| "created (EvCreateCertificate template parent pub priv # es) =
     (template, parent, pub, priv) # created es"
| "created (e # es) = created es"

text \<open>
  The serial numbers of the certificates made, in order, each with the \<open>IsCA\<close> flag
  of its template: \<open>True\<close> marks a CA certificate, \<open>False\<close> a leaf.
\<close>

definition serials :: "event list \<Rightarrow> (bool \<times> int) list" where
  "serials es =
     map (\<lambda>(template, parent, pub, priv). (IsCA template, SerialNumber template)) (created es)"

text \<open>The event creates a file or writes to one.\<close>

fun writes_file :: "event \<Rightarrow> bool" where
  "writes_file (EvCreate path) = True"
| "writes_file (EvWrite path data) = True"
| "writes_file e = False"

text \<open>The paths of the files written, in order.\<close>

fun written :: "event list \<Rightarrow> string list" where
  "written [] = []"
| "written (EvWrite path data # es) = path # written es"
| "written (e # es) = written es"

text \<open>The command lines run, in order.\<close>

fun commands :: "event list \<Rightarrow> string list list" where
  "commands [] = []"
| "commands (EvExec argv # es) = argv # commands es"
| "commands (e # es) = commands es"

section \<open>Sample environments\<close>

text \<open>
  An environment in which every call succeeds: the clock advances by one second with
  every event, temporary directories are made below \<^verbatim>\<open>/tmp\<close>, the container
  holds three short files, and \<^verbatim>\<open>10.0.0.5\<close> is the one address that parses (to its
  16-byte form).
\<close>

definition sample_key :: "nat \<Rightarrow> ecdsa_PrivateKey" where
  "sample_key n = \<lparr>PublicKey = \<lparr>Curve = P256, PubX = int n, PubY = 1\<rparr>, PrivD = int n\<rparr>"

definition sample_ca :: Certificate where
  "sample_ca =
     \<lparr>SerialNumber = 1,
      Subject = \<lparr>Organization = [''Kubernetes''], CommonName = ''Kubernetes CA''\<rparr>,
      NotBefore = 0, NotAfter = 365 * 24 * Hour,
      KeyUsage = 33, ExtKeyUsage = [], BasicConstraintsValid = True, IsCA = True,
      IPAddresses = []\<rparr>"

definition env0 :: env where
  "env0 =
     \<lparr>env_Now = (\<lambda>n. 1700000000000000000 + int n * 1000000000),
      env_Run = (\<lambda>n argv. None),
      env_Stat = (\<lambda>n path. ENOENT),
      env_container_file =
        (\<lambda>n container path.
           if path = ''/certs/ca.crt'' then ''CA''
           else if path = ''/certs/client.crt'' then ''CERT'' else ''KEY''),
      env_MkdirTemp = (\<lambda>n dir pattern. Inr (''/tmp/'' @ pattern @ ''1'')),
      env_Create = (\<lambda>n path. None),
      env_Write = (\<lambda>n path. None),
      env_GenerateKey = (\<lambda>n c. Inr (sample_key n)),
      env_CreateCertificate = (\<lambda>n template parent pub priv. Inr ''der''),
      env_MarshalECPrivateKey = (\<lambda>priv. Inr ''key''),
      env_ParseCertificate = (\<lambda>der. Inr sample_ca),
      env_ParseECPrivateKey = (\<lambda>der. Inr (sample_key 0)),
      env_ParseIP =
        (\<lambda>s. if s = ''10.0.0.5''
             then map char_of [0, 0, 0, 0, 0, 0, 0, 0, 0, 0, 255, 255, 10, 0, 0, 5 :: nat]
             else [])\<rparr>"

text \<open>The same environment, except that the client key cannot be copied out.\<close>

definition env_no_key :: env where
  "env_no_key =
     env0\<lparr>env_Run :=
            (\<lambda>n argv.
               if argv = [''docker'', ''cp'', ''kube-apiserver:/certs/client.key'',
                          ''/tmp/kubeconfig-certs1/client.key'']
               then Some ''exit status 1'' else None)\<rparr>"

definition w_init :: world where
  "w_init = \<lparr>files = Map.empty, trace = []\<rparr>"


definition w_ca :: world where
  "w_ca =
     \<lparr>files = [''ca.crt'' \<mapsto> EncodeToMemory \<lparr>Type = ''CERTIFICATE'', Bytes = ''der''\<rparr>,
               ''ca.key'' \<mapsto> EncodeToMemory \<lparr>Type = ''EC PRIVATE KEY'', Bytes = ''key''\<rparr>],
      trace = []\<rparr>"

text \<open>The sample runs: one issuance from the empty world, and a second one after it.\<close>

definition w_issued :: world where
  "w_issued =
     snd (GenerateSelfSignedCAWithSAN env0 ''ca.crt'' ''ca.key'' ''client.crt'' ''client.key''
            ''10.0.0.5'' w_init)"

definition w_reissued :: world where
  "w_reissued =
     snd (GenerateSelfSignedCAWithSAN env0 ''ca.crt'' ''ca.key'' ''client.crt'' ''client.key''
            ''10.0.0.5'' w_issued)"

text \<open>A client certificate made by \<^verbatim>\<open>GenerateClientCert\<close> from the files of a CA.\<close>

definition w_client :: world where
  "w_client =
     snd (GenerateClientCert env0 ''ca.crt'' ''ca.key'' ''client.crt'' ''client.key''
            ''10.0.0.5'' w_ca)"


definition w_start_failed :: world where
  "w_start_failed =
     snd (StartKubeAPIServer env0 ''http://127.0.0.1:2379'' ''kube-apiserver''
            ''kube-apiserver-certs'' ''10.0.0.5'' [] w_init)"

section \<open>The base64 codec is lossless\<close>

lemma of_char_less_256: "(of_char c :: nat) < 256"
  by (metis of_char_mod_256 mod_less_divisor zero_less_numeral)

lemma recompose:
  assumes "(v::nat) < 16777216"
  shows "(v div 262144 mod 64) * 262144 + (v div 4096 mod 64) * 4096 +
         (v div 64 mod 64) * 64 + v mod 64 = v"
proof -
  have 1: "v div 4096 = v div 64 div 64" by (simp add: div_mult2_eq)
  have 2: "v div 262144 = v div 64 div 64 div 64" by (simp add: div_mult2_eq)
  have 3: "v div 64 div 64 div 64 < 64"
    using assms by (simp add: div_mult2_eq less_mult_imp_div_less)
  define q1 where "q1 = v div 64"
  define q2 where "q2 = q1 div 64"
  define q3 where "q3 = q2 div 64"
  have e1: "v = q1 * 64 + v mod 64" by (simp add: q1_def)
  have e2: "q1 = q2 * 64 + q1 mod 64" by (simp add: q2_def)
  have e3: "q2 = q3 * 64 + q2 mod 64" by (simp add: q3_def)
  have e4: "q3 mod 64 = q3" using 3 by (simp add: q1_def q2_def q3_def)
  show ?thesis
    unfolding 1 2 using e1 e2 e3 e4
    unfolding q1_def[symmetric] q2_def[symmetric] q3_def[symmetric]
    by linarith
qed

lemma IndexByte_nth: "distinct xs \<Longrightarrow> n < length xs \<Longrightarrow> IndexByte xs (xs ! n) = Some n"
proof (induction xs arbitrary: n)
  case Nil
  then show ?case by simp
next
  case (Cons x xs)
  show ?case
  proof (cases n)
    case 0
    then show ?thesis by simp
  next
    case (Suc m)
    with Cons.prems have "m < length xs" "xs ! m \<noteq> x" by auto
    with Cons Suc show ?thesis by auto
  qed
qed

lemma IndexByte_None: "IndexByte xs c = None \<longleftrightarrow> c \<notin> set xs"
  by (induction xs) auto

lemma distinct_encodeStd: "distinct encodeStd"
  by (simp add: encodeStd_def)

lemma length_encodeStd: "length encodeStd = 64"
  by (simp add: encodeStd_def)

lemma decodeMap_enc: "decodeMap (enc n) = Some (n mod 64)"
  unfolding decodeMap_def enc_def
  by (rule IndexByte_nth[OF distinct_encodeStd]) (simp add: length_encodeStd)

lemma enc_in_alphabet: "enc n \<in> set encodeStd"
  unfolding enc_def by (rule nth_mem) (simp add: length_encodeStd)

lemma decodeMap_padChar: "decodeMap padChar = None"
  by (simp add: decodeMap_def IndexByte_None encodeStd_def padChar_def)

lemma div_add_small: "(r::nat) < k \<Longrightarrow> (a * k + r) div k = a"
  by simp

lemma mult_mod_zero: "(k * (c::nat)) mod c = 0"
  by simp

lemma quantum_bytes:
  fixes b0 b1 b2 :: char
  defines "v \<equiv> of_char b0 * 65536 + of_char b1 * 256 + (of_char b2 :: nat)"
  shows "quantum (v div 262144 mod 64) (v div 4096 mod 64) (v div 64 mod 64) (v mod 64) =
         [b0, b1, b2]"
proof -
  have b: "(of_char b0 :: nat) < 256" "(of_char b1 :: nat) < 256" "(of_char b2 :: nat) < 256"
    by (rule of_char_less_256)+
  have lt: "v < 16777216" using b unfolding v_def by linarith
  have r: "(v div 262144 mod 64) * 262144 + (v div 4096 mod 64) * 4096 +
           (v div 64 mod 64) * 64 + v mod 64 = v"
    by (rule recompose[OF lt])
  have s1: "of_char b1 * 256 + (of_char b2 :: nat) < 65536" using b by linarith
  have "v = of_char b0 * 65536 + (of_char b1 * 256 + of_char b2)" unfolding v_def by simp
  then have d1: "v div 65536 = of_char b0" using s1 by (simp only: div_add_small)
  have "v = (of_char b0 * 256 + of_char b1) * 256 + of_char b2" unfolding v_def by simp
  then have d2: "v div 256 = of_char b0 * 256 + of_char b1"
    using b(3) by (simp only: div_add_small)
  have c2: "char_of (of_char b0 * 256 + (of_char b1 :: nat)) = b1"
    by (metis char_of_char char_of_mod_256 mod_mult_self3)
  have c3: "char_of v = b2"
  proof -
    have "v = (of_char b0 * 256 + of_char b1) * 256 + of_char b2" unfolding v_def by simp
    then show ?thesis by (metis char_of_char char_of_mod_256 mod_mult_self3)
  qed
  show ?thesis unfolding quantum_def Let_def r d1 d2 c2 c3 by simp
qed

lemma quantum_bytes2:
  fixes b0 b1 :: char
  defines "v \<equiv> of_char b0 * 65536 + of_char b1 * (256::nat)"
  shows "take 2 (quantum (v div 262144 mod 64) (v div 4096 mod 64) (v div 64 mod 64) 0) =
         [b0, b1]"
proof -
  have z: "(of_char (CHR 0x00) :: nat) = 0" by simp
  have "v = (of_char b0 * 1024 + of_char b1 * 4) * 64" unfolding v_def by simp
  then have m: "v mod 64 = 0" by (simp only: mult_mod_zero)
  have v': "of_char b0 * 65536 + of_char b1 * 256 + (of_char (CHR 0x00) :: nat) = v"
    unfolding z v_def by simp
  have "quantum (v div 262144 mod 64) (v div 4096 mod 64) (v div 64 mod 64) (v mod 64) =
        [b0, b1, CHR 0x00]"
    using quantum_bytes[of b0 b1 "CHR 0x00"] unfolding v' .
  then show ?thesis unfolding m by (simp only: take_Suc_Cons take_0 numeral_2_eq_2)
qed

lemma quantum_bytes1:
  fixes b0 :: char
  defines "v \<equiv> of_char b0 * (65536::nat)"
  shows "take 1 (quantum (v div 262144 mod 64) (v div 4096 mod 64) 0 0) = [b0]"
proof -
  have z: "(of_char (CHR 0x00) :: nat) = 0" by simp
  have "v = (of_char b0 * 1024) * 64" unfolding v_def by simp
  then have m: "v mod 64 = 0" by (simp only: mult_mod_zero)
  have "v div 64 = (of_char b0 * 16) * 64" unfolding v_def by simp
  then have m2: "v div 64 mod 64 = 0" by (simp only: mult_mod_zero)
  have v': "of_char b0 * 65536 + of_char (CHR 0x00) * 256 + (of_char (CHR 0x00) :: nat) = v"
    unfolding z v_def by simp
  have "quantum (v div 262144 mod 64) (v div 4096 mod 64) (v div 64 mod 64) (v mod 64) =
        [b0, CHR 0x00, CHR 0x00]"
    using quantum_bytes[of b0 "CHR 0x00" "CHR 0x00"] unfolding v' .
  then show ?thesis unfolding m m2 by (simp only: take_Suc_Cons take_0 One_nat_def)
qed

lemma decodeQuanta_full:
  "decodeQuanta (enc a # enc b # enc c # enc d # src) =
     map_option (\<lambda>r. quantum (a mod 64) (b mod 64) (c mod 64) (d mod 64) @ r) (decodeQuanta src)"
  by (simp only: decodeQuanta.simps decodeMap_enc option.case)

lemma decodeQuanta_pad1:
  "decodeQuanta [enc a, enc b, enc c, padChar] =
     Some (take 2 (quantum (a mod 64) (b mod 64) (c mod 64) 0))"
  by (simp only: decodeQuanta.simps decodeMap_enc decodeMap_padChar option.case simp_thms if_True)

lemma decodeQuanta_pad2:
  "decodeQuanta [enc a, enc b, padChar, padChar] =
     Some (take 1 (quantum (a mod 64) (b mod 64) 0 0))"
  by (simp only: decodeQuanta.simps decodeMap_enc decodeMap_padChar option.case simp_thms if_True)

lemma decodeQuanta_EncodeToString: "decodeQuanta (EncodeToString bs) = Some bs"
proof (induction bs rule: EncodeToString.induct)
  case (1 b0 b1 b2 src)
  show ?case
    unfolding EncodeToString.simps Let_def decodeQuanta_full "1.IH"[unfolded Let_def, OF refl]
      quantum_bytes[of b0 b1 b2]
    by simp
next
  case (2 b0 b1)
  show ?case
    unfolding EncodeToString.simps Let_def decodeQuanta_pad1 quantum_bytes2[of b0 b1] ..
next
  case (3 b0)
  show ?case
    unfolding EncodeToString.simps Let_def decodeQuanta_pad2 quantum_bytes1[of b0] ..
next
  case 4
  show ?case by simp
qed

lemma set_EncodeToString: "set (EncodeToString bs) \<subseteq> insert padChar (set encodeStd)"
proof (induction bs rule: EncodeToString.induct)
  case (1 b0 b1 b2 src)
  then show ?case by (simp add: Let_def enc_in_alphabet)
next
  case (2 b0 b1)
  show ?case by (simp add: Let_def enc_in_alphabet)
next
  case (3 b0)
  show ?case by (simp add: Let_def enc_in_alphabet)
next
  case 4
  show ?case by simp
qed

lemma LF_not_base64: "LF \<notin> insert padChar (set encodeStd)"
  by (simp add: LF_def padChar_def encodeStd_def)

lemma CR_not_base64: "CR \<notin> insert padChar (set encodeStd)"
  by (simp add: CR_def padChar_def encodeStd_def)

lemma filter_breaks_EncodeToString:
  "filter (\<lambda>c. c \<noteq> LF \<and> c \<noteq> CR) (EncodeToString bs) = EncodeToString bs"
proof -
  have "\<forall>c \<in> set (EncodeToString bs). c \<noteq> LF \<and> c \<noteq> CR"
    using set_EncodeToString[of bs] LF_not_base64 CR_not_base64 by blast
  then show ?thesis by (simp only: filter_id_conv)
qed

lemma DecodeString_EncodeToString: "DecodeString (EncodeToString bs) = Some bs"
  by (simp only: DecodeString_def filter_breaks_EncodeToString decodeQuanta_EncodeToString)

section \<open>The PEM codec on its own output\<close>

lemma IndexByte_append: "c \<notin> set xs \<Longrightarrow> IndexByte (xs @ c # ys) c = Some (length xs)"
  by (induction xs) auto

lemma TrimRight_id: "xs = [] \<or> (last xs \<noteq> CHR '' '' \<and> last xs \<noteq> TAB) \<Longrightarrow> TrimRight_sp_tab xs = xs"
proof (cases "xs = []")
  case True
  then show ?thesis by (simp add: TrimRight_sp_tab_def)
next
  case False
  assume "xs = [] \<or> (last xs \<noteq> CHR '' '' \<and> last xs \<noteq> TAB)"
  with False have l: "last xs \<noteq> CHR '' ''" "last xs \<noteq> TAB" by auto
  from False have r: "rev xs = last xs # rev (butlast xs)"
    by (metis append_butlast_last_id rev.simps(2) rev_append rev_rev_ident append_Cons append_Nil rev_singleton_conv)
  have "dropWhile (\<lambda>c. c = CHR '' '' \<or> c = TAB) (rev xs) = rev xs"
    unfolding r using l by simp
  then show ?thesis by (simp add: TrimRight_sp_tab_def)
qed

lemma getLine_line:
  assumes "LF \<notin> set xs"
    and "xs = [] \<or> (last xs \<noteq> CHR '' '' \<and> last xs \<noteq> TAB \<and> last xs \<noteq> CR)"
  shows "getLine (xs @ LF # ys) = (xs, ys, Suc (length xs))"
proof -
  have i: "IndexByte (xs @ LF # ys) LF = Some (length xs)"
    using assms(1) by (rule IndexByte_append)
  have cr: "\<not> (0 < length xs \<and> (xs @ LF # ys) ! (length xs - 1) = CR)"
  proof (cases "xs = []")
    case True
    then show ?thesis by simp
  next
    case False
    then have "(xs @ LF # ys) ! (length xs - 1) = last xs"
      by (simp add: nth_append last_conv_nth)
    with assms(2) False show ?thesis by simp
  qed
  have t: "TrimRight_sp_tab xs = xs" using assms(2) by (intro TrimRight_id) auto
  have "(if 0 < length xs \<and> (xs @ LF # ys) ! (length xs - 1) = CR then length xs - 1 else length xs) = length xs"
    using cr by (simp only: if_False)
  then show ?thesis unfolding getLine_def i using t by (simp add: Let_def)
qed

lemma Index_skip:
  "LF \<notin> set xs \<Longrightarrow>
   Index (xs @ zs) pemEnd = map_option (\<lambda>i. i + length xs) (Index zs pemEnd)"
proof (induction xs)
  case Nil
  show ?case by (simp add: option.map_ident)
next
  case (Cons x xs)
  then have "\<not> prefix pemEnd (x # xs @ zs)" by (simp add: pemEnd_def)
  with Cons show ?case by (simp add: option.map_comp comp_def)
qed

lemma Index_skip_LF:
  "c \<noteq> CHR ''-'' \<Longrightarrow> Index (LF # c # zs) pemEnd = map_option Suc (Index (c # zs) pemEnd)"
  by (simp add: pemEnd_def)

lemma Index_pemEnd_here: "Index (pemEnd @ ys) pemEnd = Some 0"
  by (simp add: pemEnd_def)

lemma Index_pemEnd:
  "LF \<notin> set xs \<Longrightarrow> Index (xs @ pemEnd @ ys) pemEnd = Some (length xs)"
  by (simp add: Index_skip Index_pemEnd_here)

lemma set_breakLines: "set (breakLines s) \<subseteq> insert LF (set s)"
proof (induction s rule: breakLines.induct)
  case (1 s)
  show ?case
  proof (cases "length s < 64")
    case True
    then show ?thesis by (subst breakLines.simps) auto
  next
    case False
    have "set (take 64 s) \<subseteq> set s" by (rule set_take_subset)
    moreover have "set (drop 64 s) \<subseteq> set s" by (rule set_drop_subset)
    moreover note "1.IH"[OF False]
    ultimately show ?thesis using False by (subst breakLines.simps) auto
  qed
qed

lemma filter_breakLines:
  "filter (\<lambda>c. c \<noteq> LF \<and> c \<noteq> CR) (breakLines s) = filter (\<lambda>c. c \<noteq> LF \<and> c \<noteq> CR) s"
proof (induction s rule: breakLines.induct)
  case (1 s)
  show ?case
  proof (cases "length s < 64")
    case True
    then show ?thesis by (subst breakLines.simps) auto
  next
    case False
    have "filter (\<lambda>c. c \<noteq> LF \<and> c \<noteq> CR) (take 64 s) @ filter (\<lambda>c. c \<noteq> LF \<and> c \<noteq> CR) (drop 64 s)
          = filter (\<lambda>c. c \<noteq> LF \<and> c \<noteq> CR) s"
      by (metis append_take_drop_id filter_append)
    with "1.IH"[OF False] False show ?thesis by (subst breakLines.simps) simp
  qed
qed

lemma breakLines_last: "s \<noteq> [] \<Longrightarrow> \<exists>b. breakLines s = b @ [LF]"
proof (induction s rule: breakLines.induct)
  case (1 s)
  show ?case
  proof (cases "length s < 64")
    case True
    with "1.prems" show ?thesis by (subst breakLines.simps) simp
  next
    case False
    show ?thesis
    proof (cases "drop 64 s = []")
      case True
      then have "breakLines (drop 64 s) = []" by (subst breakLines.simps) simp
      with False show ?thesis by (subst breakLines.simps) simp
    next
      case F: False
      from "1.IH"[OF False F] obtain b where "breakLines (drop 64 s) = b @ [LF]" by blast
      with False have "breakLines s = (take 64 s @ [LF] @ b) @ [LF]"
        by (subst breakLines.simps) simp
      then show ?thesis by blast
    qed
  qed
qed

lemma breakLines_first:
  "s \<noteq> [] \<Longrightarrow> \<exists>l r. breakLines s = l @ LF # r \<and> l \<noteq> [] \<and> set l \<subseteq> set s"
proof (cases "length s < 64")
  case True
  assume "s \<noteq> []"
  with True have "breakLines s = s @ LF # []" by (subst breakLines.simps) simp
  with \<open>s \<noteq> []\<close> show ?thesis by blast
next
  case False
  assume "s \<noteq> []"
  from False have "breakLines s = take 64 s @ LF # breakLines (drop 64 s)"
    by (subst breakLines.simps) simp
  moreover have "take 64 s \<noteq> []" using \<open>s \<noteq> []\<close> by simp
  moreover have "set (take 64 s) \<subseteq> set s" by (rule set_take_subset)
  ultimately show ?thesis by blast
qed


lemma EncodeToString_Nil_iff: "EncodeToString bs = [] \<longleftrightarrow> bs = []"
  by (cases bs rule: EncodeToString.cases) (simp_all add: Let_def)

lemma base64_chars:
  "c \<in> insert padChar (set encodeStd) \<Longrightarrow>
   c \<noteq> LF \<and> c \<noteq> CR \<and> c \<noteq> TAB \<and> c \<noteq> CHR '' '' \<and> c \<noteq> CHR '':'' \<and> c \<noteq> CHR ''-''"
  by (auto simp: LF_def CR_def TAB_def padChar_def encodeStd_def)

lemma breakLines_Nil: "breakLines [] = []"
  by (subst breakLines.simps) simp

lemma breakLines_length: "s \<noteq> [] \<Longrightarrow> 0 < length (breakLines s)"
  using breakLines_last[of s] by auto

lemma Index_breakLines:
  assumes "s \<noteq> []" and "LF \<notin> set s" and "CHR ''-'' \<notin> set s"
  shows "Index (breakLines s @ tl pemEnd @ ys) pemEnd = Some (length (breakLines s) - 1)"
  using assms
proof (induction s rule: breakLines.induct)
  case (1 s)
  show ?case
  proof (cases "length s < 64")
    case True
    with "1.prems"(1) have bl: "breakLines s = s @ [LF]" by (subst breakLines.simps) simp
    have eq: "breakLines s @ tl pemEnd @ ys = s @ pemEnd @ ys" by (simp add: bl pemEnd_def)
    have "Index (s @ pemEnd @ ys) pemEnd = Some (length s)"
      using "1.prems"(2) by (rule Index_pemEnd)
    then show ?thesis unfolding eq by (simp add: bl)
  next
    case False
    define s' where "s' = drop 64 s"
    define h where "h = take 64 s"
    have bl: "breakLines s = h @ [LF] @ breakLines s'"
      using False unfolding s'_def h_def by (subst breakLines.simps) simp
    have hl: "length h = 64" using False by (simp add: h_def)
    have hs: "LF \<notin> set h" using "1.prems"(2) set_take_subset[of 64 s] unfolding h_def by blast
    show ?thesis
    proof (cases "s' = []")
      case True
      have eq: "breakLines s @ tl pemEnd @ ys = h @ pemEnd @ ys"
        by (simp add: bl True breakLines_Nil pemEnd_def)
      have "Index (h @ pemEnd @ ys) pemEnd = Some (length h)"
        using hs by (rule Index_pemEnd)
      then show ?thesis unfolding eq by (simp add: bl True breakLines_Nil)
    next
      case ne: False
      have sub: "set s' \<subseteq> set s" unfolding s'_def by (rule set_drop_subset)
      have p2: "LF \<notin> set s'" and p3: "CHR ''-'' \<notin> set s'" using sub "1.prems" by blast+
      have ih: "Index (breakLines s' @ tl pemEnd @ ys) pemEnd = Some (length (breakLines s') - 1)"
        using "1.IH"[OF False] ne p2 p3 unfolding s'_def by blast
      from breakLines_first[OF ne] obtain l r where
        l: "breakLines s' = l @ LF # r" "l \<noteq> []" "set l \<subseteq> set s'" by blast
      obtain c cs where lc: "l = c # cs" using l(2) by (cases l) auto
      have cd: "c \<noteq> CHR ''-''" using l(3) lc p3 by auto
      define zs where "zs = cs @ LF # r @ tl pemEnd @ ys"
      have bz: "breakLines s' @ tl pemEnd @ ys = c # zs" by (simp add: l(1) lc zs_def)
      have "Index (h @ LF # c # zs) pemEnd
            = map_option (\<lambda>i. i + length h) (Index (LF # c # zs) pemEnd)"
        using hs by (rule Index_skip)
      also have "\<dots> = map_option (\<lambda>i. i + length h) (map_option Suc (Index (c # zs) pemEnd))"
        by (simp only: Index_skip_LF[OF cd])
      also have "\<dots> = Some (Suc (length (breakLines s') - 1) + length h)"
        using ih unfolding bz by simp
      finally have "Index (h @ LF # c # zs) pemEnd = Some (Suc (length (breakLines s') - 1) + length h)" .
      moreover have "breakLines s @ tl pemEnd @ ys = h @ LF # c # zs"
        using bz by (simp add: bl)
      moreover have "length (breakLines s) - 1 = Suc (length (breakLines s') - 1) + length h"
        using breakLines_length[OF ne] by (simp add: bl)
      ultimately show ?thesis by simp
    qed
  qed
qed

lemma LastIndex_None: "LastIndex xs sep = None \<longleftrightarrow> \<not> sublist sep xs"
  by (induction xs) (auto simp: sublist_Cons_right split: option.splits)

lemma LastIndex_first:
  "prefix sep (x # xs) \<Longrightarrow> \<not> sublist sep xs \<Longrightarrow> LastIndex (x # xs) sep = Some 0"
  using LastIndex_None[of xs sep] by simp

lemma sublist_split:
  "sublist P (as @ c # bs) \<Longrightarrow> c \<notin> set P \<Longrightarrow> sublist P as \<or> sublist P bs"
proof (induction as)
  case Nil
  then show ?case by (cases P) (auto simp: sublist_Cons_right)
next
  case (Cons a as)
  from Cons.prems(1) have "prefix P ((a # as) @ c # bs) \<or> sublist P (as @ c # bs)"
    by (simp add: sublist_Cons_right)
  then show ?case
  proof
    assume "prefix P ((a # as) @ c # bs)"
    then have "prefix P (a # as) \<or> (\<exists>us. P = (a # as) @ us \<and> prefix us (c # bs))"
      by (simp only: prefix_append)
    then show ?thesis
    proof
      assume "prefix P (a # as)"
      then show ?thesis by (blast intro: prefix_imp_sublist)
    next
      assume "\<exists>us. P = (a # as) @ us \<and> prefix us (c # bs)"
      then obtain us where us: "P = (a # as) @ us" "prefix us (c # bs)" by blast
      show ?thesis
      proof (cases us)
        case Nil
        with us(1) show ?thesis by simp
      next
        case (Cons u us')
        with us(2) have "u = c" by simp
        with us(1) Cons Cons.prems(2) show ?thesis by simp
      qed
    qed
  next
    assume "sublist P (as @ c # bs)"
    from Cons.IH[OF this Cons.prems(2)] show ?thesis
      by (auto simp: sublist_Cons_right)
  qed
qed

lemma sublist_strip:
  "sublist P (as @ ds) \<Longrightarrow> P \<noteq> [] \<Longrightarrow> last P \<notin> set ds \<Longrightarrow> sublist P as"
proof (induction ds rule: rev_induct)
  case Nil
  then show ?case by simp
next
  case (snoc d ds)
  from snoc.prems(1) obtain ps ss where e: "(as @ ds) @ [d] = ps @ P @ ss"
    by (auto simp: sublist_def)
  have "sublist P (as @ ds)"
  proof (cases ss rule: rev_cases)
    case Nil
    with e snoc.prems(2) have "last P = d"
      by (metis append.assoc append_Nil2 last_appendR last_snoc)
    with snoc.prems(3) show ?thesis by simp
  next
    case (snoc ss' l)
    with e have "as @ ds = ps @ P @ ss'" by (metis append.assoc butlast_snoc)
    then show ?thesis by (auto simp: sublist_def)
  qed
  with snoc.IH snoc.prems show ?case by simp
qed

lemma sublist_begin_front:
  "sublist (tl pemStart) (tl (tl pemStart) @ ty) \<Longrightarrow> sublist (tl pemStart) ty"
  by (simp add: pemStart_def sublist_Cons_right)

lemma no_second_begin:
  assumes ns: "\<not> sublist (tl pemStart) ty"
  shows "\<not> sublist (tl pemStart) (tl (tl pemStart) @ ty @ pemEndOfLine)"
    and "CHR ''-'' \<notin> set b \<Longrightarrow>
         \<not> sublist (tl pemStart) (tl (tl pemStart) @ ty @ pemEndOfLine @ LF # b)"
proof -
  have ne: "tl pemStart \<noteq> []" by (simp add: pemStart_def)
  have la: "last (tl pemStart) \<notin> set pemEndOfLine" by (simp add: pemStart_def pemEndOfLine_def)
  show 1: "\<not> sublist (tl pemStart) (tl (tl pemStart) @ ty @ pemEndOfLine)"
  proof
    assume "sublist (tl pemStart) (tl (tl pemStart) @ ty @ pemEndOfLine)"
    then have "sublist (tl pemStart) ((tl (tl pemStart) @ ty) @ pemEndOfLine)" by simp
    from sublist_strip[OF this ne la] have "sublist (tl pemStart) (tl (tl pemStart) @ ty)" .
    with sublist_begin_front ns show False by blast
  qed
  show "\<not> sublist (tl pemStart) (tl (tl pemStart) @ ty @ pemEndOfLine @ LF # b)"
    if b: "CHR ''-'' \<notin> set b"
  proof
    assume "sublist (tl pemStart) (tl (tl pemStart) @ ty @ pemEndOfLine @ LF # b)"
    then have "sublist (tl pemStart) ((tl (tl pemStart) @ ty @ pemEndOfLine) @ LF # b)" by simp
    moreover have "LF \<notin> set (tl pemStart)" by (simp add: pemStart_def LF_def)
    ultimately have "sublist (tl pemStart) (tl (tl pemStart) @ ty @ pemEndOfLine)
                     \<or> sublist (tl pemStart) b"
      by (rule sublist_split)
    with 1 have "sublist (tl pemStart) b" by blast
    then have "set (tl pemStart) \<subseteq> set b" by (rule set_mono_sublist)
    with b show False by (auto simp: pemStart_def)
  qed
qed

lemma trailer_facts:
  fixes ty :: string
  defines "T \<equiv> ty @ pemEndOfLine @ [LF]"
  shows "\<not> length T < length ty + length pemEndOfLine"
    and "drop (length ty + length pemEndOfLine) T = [LF]"
    and "take (length ty + length pemEndOfLine) T = ty @ pemEndOfLine"
    and "prefix ty (ty @ pemEndOfLine)"
    and "suffix pemEndOfLine (ty @ pemEndOfLine)"
    and "getLine [LF] = ([], [], Suc 0)"
proof -
  show "\<not> length T < length ty + length pemEndOfLine" by (simp add: T_def)
  show "drop (length ty + length pemEndOfLine) T = [LF]" by (simp add: T_def)
  show "take (length ty + length pemEndOfLine) T = ty @ pemEndOfLine" by (simp add: T_def)
  show "prefix ty (ty @ pemEndOfLine)" by simp
  show "suffix pemEndOfLine (ty @ pemEndOfLine)" by (simp add: suffix_def)
  show "getLine [LF] = ([], [], Suc 0)" using getLine_line[of "[]" "[]"] by simp
qed

lemma decodeAt_finish:
  assumes ix: "Index (tl pemStart @ ty @ pemEndOfLine @ [LF] @ R) pemEnd = Some i"
    and li: "LastIndex (take i (tl pemStart @ ty @ pemEndOfLine @ [LF] @ R)) (tl pemStart) = Some 0"
    and ei: "int i - int (0 + length pemStart - 1) - int (Suc (length (ty @ pemEndOfLine))) = ei"
    and eti: "int i + int (length pemEnd) - int (0 + length pemStart - 1)
              - int (Suc (length (ty @ pemEndOfLine))) = eti"
    and hl: "headerLines R False ei eti = Some (R, False, ei, eti)"
    and dr: "drop (nat eti) R = ty @ pemEndOfLine @ [LF]"
    and ds: "(if 0 < ei then DecodeString (removeSpacesAndTabs (take (nat ei) R)) else Some [])
             = Some bs"
    and lf: "LF \<notin> set ty"
  shows "decodeAt (tl pemStart @ ty @ pemEndOfLine @ [LF] @ R) = Found \<lparr>Type = ty, Bytes = bs\<rparr>"
proof -
  let ?text = "tl pemStart @ ty @ pemEndOfLine @ [LF] @ R"
  have c0: "(0 < (0::nat) \<and> ?text ! (0 - 1) \<noteq> LF) = False" by simp
  have d1: "drop (0 + length pemStart - 1) ?text = ty @ pemEndOfLine @ [LF] @ R"
    by (simp add: pemStart_def)
  have g: "getLine (ty @ pemEndOfLine @ [LF] @ R) = (ty @ pemEndOfLine, R, Suc (length (ty @ pemEndOfLine)))"
    using getLine_line[of "ty @ pemEndOfLine" R] lf
    by (simp add: pemEndOfLine_def LF_def TAB_def CR_def)
  have tk: "take (length (ty @ pemEndOfLine) - length pemEndOfLine) (ty @ pemEndOfLine) = ty"
    by simp
  have hf: "(False \<and> ei < 0) = False" by simp
  note tf = trailer_facts
  show ?thesis
    unfolding decodeAt_def ix option.case Let_def li c0 if_False d1 g prod.case tk ei eti hl hf dr ds
    using tf by (simp only: if_False if_True simp_thms fst_conv option.case)
qed

lemma begin_found:
  assumes ns: "\<not> sublist (tl pemStart) ty"
  shows "LastIndex (tl pemStart @ ty @ pemEndOfLine) (tl pemStart) = Some 0"
    and "CHR ''-'' \<notin> set b \<Longrightarrow>
         LastIndex (tl pemStart @ ty @ pemEndOfLine @ LF # b) (tl pemStart) = Some 0"
proof -
  have hd: "tl pemStart = CHR ''-'' # tl (tl pemStart)" by (simp add: pemStart_def)
  have p: "prefix (tl pemStart) (CHR ''-'' # tl (tl pemStart) @ zs)" for zs
    using hd by (metis append_Cons prefixI)
  have e: "tl pemStart @ zs = CHR ''-'' # tl (tl pemStart) @ zs" for zs
    using hd by (metis append_Cons)
  show "LastIndex (tl pemStart @ ty @ pemEndOfLine) (tl pemStart) = Some 0"
    unfolding e using no_second_begin(1)[OF ns] by (intro LastIndex_first p) auto
  show "LastIndex (tl pemStart @ ty @ pemEndOfLine @ LF # b) (tl pemStart) = Some 0"
    if "CHR ''-'' \<notin> set b"
    unfolding e using no_second_begin(2)[OF ns that] by (intro LastIndex_first p)
qed

lemma decodeAt_empty:
  assumes lf: "LF \<notin> set ty" and col: "CHR '':'' \<notin> set ty"
    and ns: "\<not> sublist (tl pemStart) ty"
  shows "decodeAt (tl pemStart @ ty @ pemEndOfLine @ [LF] @ tl pemEnd @ ty @ pemEndOfLine @ [LF]) =
         Found \<lparr>Type = ty, Bytes = []\<rparr>"
proof -
  define R where "R = tl pemEnd @ ty @ pemEndOfLine @ [LF]"
  define H where "H = tl pemStart @ ty @ pemEndOfLine"
  have ne: "R \<noteq> []" by (simp add: R_def pemEnd_def)
  have tx: "tl pemStart @ ty @ pemEndOfLine @ [LF] @ R = H @ pemEnd @ ty @ pemEndOfLine @ [LF]"
    by (simp add: H_def R_def pemEnd_def)
  have Hlf: "LF \<notin> set H" using lf by (simp add: H_def pemStart_def pemEndOfLine_def LF_def)
  have ix: "Index (tl pemStart @ ty @ pemEndOfLine @ [LF] @ R) pemEnd = Some (length H)"
    unfolding tx using Hlf by (rule Index_pemEnd)
  have li: "LastIndex (take (length H) (tl pemStart @ ty @ pemEndOfLine @ [LF] @ R)) (tl pemStart)
            = Some 0"
    unfolding tx using begin_found(1)[OF ns] by (simp add: H_def)
  have ei: "int (length H) - int (0 + length pemStart - 1) - int (Suc (length (ty @ pemEndOfLine)))
            = - 1"
    by (simp add: H_def pemStart_def)
  have eti: "int (length H) + int (length pemEnd) - int (0 + length pemStart - 1)
              - int (Suc (length (ty @ pemEndOfLine))) = 9"
    by (simp add: H_def pemStart_def pemEnd_def)
  have g: "getLine R = (tl pemEnd @ ty @ pemEndOfLine, [], Suc (length (tl pemEnd @ ty @ pemEndOfLine)))"
    using getLine_line[of "tl pemEnd @ ty @ pemEndOfLine" "[]"] lf
    by (simp add: R_def pemEnd_def pemEndOfLine_def LF_def TAB_def CR_def)
  have nc: "CHR '':'' \<notin> set (tl pemEnd @ ty @ pemEndOfLine)"
    using col by (simp add: pemEnd_def pemEndOfLine_def)
  have hl: "headerLines R False (- 1) 9 = Some (R, False, - 1, 9)"
    unfolding headerLines.simps[of R False] g prod.case
    using ne nc by (simp only: if_False simp_thms)
  have dr: "drop (nat 9) R = ty @ pemEndOfLine @ [LF]"
    by (simp add: R_def pemEnd_def)
  have ds: "(if 0 < (- 1 :: int) then DecodeString (removeSpacesAndTabs (take (nat (- 1)) R))
             else Some []) = Some []"
    by simp
  show ?thesis using decodeAt_finish[OF ix li ei eti hl dr ds lf] by (simp only: R_def)
qed

lemma decodeAt_nonempty:
  assumes lf: "LF \<notin> set ty" and ne: "bs \<noteq> []"
    and ns: "\<not> sublist (tl pemStart) ty"
  shows "decodeAt (tl pemStart @ ty @ pemEndOfLine @ [LF] @ breakLines (EncodeToString bs) @
                   tl pemEnd @ ty @ pemEndOfLine @ [LF]) =
         Found \<lparr>Type = ty, Bytes = bs\<rparr>"
proof -
  define s where "s = EncodeToString bs"
  define T where "T = ty @ pemEndOfLine @ [LF]"
  define R where "R = breakLines s @ tl pemEnd @ T"
  define H where "H = tl pemStart @ ty @ pemEndOfLine"
  have sne: "s \<noteq> []" using ne by (simp add: s_def EncodeToString_Nil_iff)
  have sA: "set s \<subseteq> insert padChar (set encodeStd)"
    unfolding s_def by (rule set_EncodeToString)
  have sLF: "LF \<notin> set s" and sD: "CHR ''-'' \<notin> set s"
    using sA base64_chars by blast+
  from breakLines_last[OF sne] obtain b where b: "breakLines s = b @ [LF]" by blast
  from breakLines_first[OF sne] obtain l r where
    l: "breakLines s = l @ LF # r" "l \<noteq> []" "set l \<subseteq> set s" by blast
  have lA: "\<forall>c \<in> set l. c \<in> insert padChar (set encodeStd)" using l(3) sA by blast
  have bset: "set b \<subseteq> insert LF (insert padChar (set encodeStd))"
  proof -
    have "set b \<subseteq> set (breakLines s)" by (auto simp: b)
    with set_breakLines[of s] sA show ?thesis by blast
  qed
  have Rne: "R \<noteq> []" by (simp add: R_def l(1))
  have lastl: "last l \<in> insert padChar (set encodeStd)" using l(2) lA by simp
  have g: "getLine R = (l, r @ tl pemEnd @ T, Suc (length l))"
  proof -
    have "LF \<notin> set l" using lA base64_chars by blast
    moreover have "last l \<noteq> CHR '' '' \<and> last l \<noteq> TAB \<and> last l \<noteq> CR"
      using base64_chars[OF lastl] by simp
    ultimately have "getLine (l @ LF # (r @ tl pemEnd @ T)) = (l, r @ tl pemEnd @ T, Suc (length l))"
      by (intro getLine_line) auto
    then show ?thesis by (simp add: R_def l(1))
  qed
  have nc: "CHR '':'' \<notin> set l" using lA base64_chars by blast
  have hl: "headerLines R False (int (length b)) (int (length b) + 10)
            = Some (R, False, int (length b), int (length b) + 10)"
    unfolding headerLines.simps[of R False] g prod.case
    using Rne nc by (simp only: if_False simp_thms)
  have Rb: "R = b @ pemEnd @ T" by (simp add: R_def b pemEnd_def)
  have nd: "CHR ''-'' \<notin> set b"
  proof
    assume "CHR ''-'' \<in> set b"
    with bset have "CHR ''-'' = LF \<or> CHR ''-'' \<in> insert padChar (set encodeStd)" by blast
    then show False using base64_chars[of "CHR ''-''"] by (auto simp: LF_def)
  qed
  obtain c cs where lc: "l = c # cs" using l(2) by (cases l) auto
  have cd: "c \<noteq> CHR ''-''" using lA lc base64_chars[of c] by auto
  have Hlf: "LF \<notin> set H" using lf by (simp add: H_def pemStart_def pemEndOfLine_def LF_def)
  have blen: "length (breakLines s) = Suc (length b)" by (simp add: b)
  have e1: "breakLines s @ tl pemEnd @ T = c # cs @ LF # r @ tl pemEnd @ T"
    by (simp add: l(1) lc)
  have idxR: "Index (c # cs @ LF # r @ tl pemEnd @ T) pemEnd = Some (length b)"
    using Index_breakLines[OF sne sLF sD, of T] unfolding e1 blen by (simp only: diff_Suc_1)
  have tx: "tl pemStart @ ty @ pemEndOfLine @ [LF] @ R = H @ LF # c # cs @ LF # r @ tl pemEnd @ T"
    by (simp add: H_def R_def l(1) lc)
  have "Index (H @ LF # c # cs @ LF # r @ tl pemEnd @ T) pemEnd
        = map_option (\<lambda>i. i + length H) (Index (LF # c # cs @ LF # r @ tl pemEnd @ T) pemEnd)"
    using Hlf by (rule Index_skip)
  also have "\<dots> = map_option (\<lambda>i. i + length H)
                     (map_option Suc (Index (c # cs @ LF # r @ tl pemEnd @ T) pemEnd))"
    by (simp only: Index_skip_LF[OF cd])
  also have "\<dots> = Some (length H + 1 + length b)" unfolding idxR by simp
  finally have ix: "Index (tl pemStart @ ty @ pemEndOfLine @ [LF] @ R) pemEnd
                    = Some (length H + 1 + length b)"
    unfolding tx .
  have tk0: "take (length H + 1 + length b) (tl pemStart @ ty @ pemEndOfLine @ [LF] @ R)
             = tl pemStart @ ty @ pemEndOfLine @ LF # b"
    by (simp add: H_def Rb)
  have li: "LastIndex (take (length H + 1 + length b) (tl pemStart @ ty @ pemEndOfLine @ [LF] @ R))
              (tl pemStart) = Some 0"
    unfolding tk0 using nd by (rule begin_found(2)[OF ns])
  have ei: "int (length H + 1 + length b) - int (0 + length pemStart - 1)
            - int (Suc (length (ty @ pemEndOfLine))) = int (length b)"
    by (simp add: H_def pemStart_def)
  have eti: "int (length H + 1 + length b) + int (length pemEnd) - int (0 + length pemStart - 1)
              - int (Suc (length (ty @ pemEndOfLine))) = int (length b) + 10"
    by (simp add: H_def pemStart_def pemEnd_def)
  have dr: "drop (nat (int (length b) + 10)) R = ty @ pemEndOfLine @ [LF]"
  proof -
    have "nat (int (length b) + 10) = length b + length pemEnd" by (simp add: pemEnd_def)
    then show ?thesis by (simp add: Rb T_def)
  qed
  have bne: "0 < length b"
  proof -
    have "length l < length (breakLines s)" by (simp add: l(1))
    with blen l(2) show ?thesis by (cases l) auto
  qed
  have tk: "take (length b) R = b" by (simp add: Rb)
  have rs: "removeSpacesAndTabs b = b"
  proof -
    have "\<forall>c \<in> set b. c \<noteq> CHR '' '' \<and> c \<noteq> TAB"
    proof
      fix c assume "c \<in> set b"
      with bset have "c = LF \<or> c \<in> insert padChar (set encodeStd)" by blast
      then show "c \<noteq> CHR '' '' \<and> c \<noteq> TAB"
        using base64_chars[of c] by (auto simp: LF_def TAB_def)
    qed
    then show ?thesis unfolding removeSpacesAndTabs_def by (simp only: filter_id_conv)
  qed
  have fb: "filter (\<lambda>c. c \<noteq> LF \<and> c \<noteq> CR) b = s"
  proof -
    have "filter (\<lambda>c. c \<noteq> LF \<and> c \<noteq> CR) b = filter (\<lambda>c. c \<noteq> LF \<and> c \<noteq> CR) (breakLines s)"
      by (simp add: b)
    also have "\<dots> = filter (\<lambda>c. c \<noteq> LF \<and> c \<noteq> CR) s" by (rule filter_breakLines)
    also have "\<dots> = s" unfolding s_def by (rule filter_breaks_EncodeToString)
    finally show ?thesis .
  qed
  have ds0: "DecodeString (removeSpacesAndTabs (take (length b) R)) = Some bs"
    unfolding tk rs DecodeString_def fb s_def by (rule decodeQuanta_EncodeToString)
  have ds: "(if 0 < int (length b)
             then DecodeString (removeSpacesAndTabs (take (nat (int (length b))) R))
             else Some []) = Some bs"
    using bne ds0 by simp
  show ?thesis
    using decodeAt_finish[OF ix li ei eti hl dr ds lf] by (simp only: R_def T_def s_def)
qed

lemma pem_roundtrip:
  assumes "LF \<notin> set ty" and "\<not> sublist (tl pemStart) ty"
    and "bs \<noteq> [] \<or> CHR '':'' \<notin> set ty"
  shows "pem_Decode (EncodeToMemory \<lparr>Type = ty, Bytes = bs\<rparr>) = Some \<lparr>Type = ty, Bytes = bs\<rparr>"
proof -
  let ?text = "tl pemStart @ ty @ pemEndOfLine @ [LF] @ breakLines (EncodeToString bs) @
               tl pemEnd @ ty @ pemEndOfLine @ [LF]"
  have e: "EncodeToMemory \<lparr>Type = ty, Bytes = bs\<rparr> = ?text"
    by (simp add: EncodeToMemory_def)
  have d: "decodeAt ?text = Found \<lparr>Type = ty, Bytes = bs\<rparr>"
  proof (cases "bs = []")
    case True
    with assms(3) have c: "CHR '':'' \<notin> set ty" by simp
    from decodeAt_empty[OF assms(1) c assms(2)] True show ?thesis by (simp add: breakLines_Nil)
  next
    case False
    then show ?thesis by (rule decodeAt_nonempty[OF assms(1) _ assms(2)])
  qed
  have d0: "decodeAt (drop (nat 0) ?text) = Found \<lparr>Type = ty, Bytes = bs\<rparr>"
    using d by simp
  have c: "\<not> ((0::int) < 0 \<or> int (length ?text) < 0)" by simp
  show ?thesis
    unfolding e pem_Decode_def
    by (subst Decode_loop.simps) (simp only: c if_False d0 attempt.case)
qed

section \<open>What a successful issuance did\<close>

lemmas world_ops = step_def emit_def time_Now_def exec_Run_def Stat_IsNotExist_def
  os_Stat_def os_IsNotExist_def
  os_MkdirTemp_def os_RemoveAll_def os_ReadFile_def os_Create_def file_Write_def
  ecdsa_GenerateKey_def x509_CreateCertificate_def

lemma created_append: "created (xs @ ys) = created xs @ created ys"
  by (induction xs rule: created.induct) auto

lemma written_append: "written (xs @ ys) = written xs @ written ys"
  by (induction xs rule: written.induct) auto

lemma commands_append: "commands (xs @ ys) = commands xs @ commands ys"
  by (induction xs rule: commands.induct) auto

lemma issuance_success:
  assumes "GenerateSelfSignedCAWithSAN E p1 p2 p3 p4 hostIP w0 = (None, w')"
  obtains caPriv caCertDER caPrivBytes clientPriv clientCertDER clientPrivBytes where
    "env_GenerateKey E (step w0) P256 = Inr caPriv"
    "env_GenerateKey E (step w0 + 8) P256 = Inr clientPriv"
    "trace w' = trace w0 @
       [EvGenerateKey P256, EvNow, EvNow,
        EvCreateCertificate
          (caTemplate (env_Now E (step w0 + 1)) (env_Now E (step w0 + 2)) (env_ParseIP E hostIP))
          (caTemplate (env_Now E (step w0 + 1)) (env_Now E (step w0 + 2)) (env_ParseIP E hostIP))
          (PublicKey caPriv) caPriv,
        EvCreate p1, EvWrite p1 (EncodeToMemory \<lparr>Type = ''CERTIFICATE'', Bytes = caCertDER\<rparr>),
        EvCreate p2, EvWrite p2 (EncodeToMemory \<lparr>Type = ''EC PRIVATE KEY'', Bytes = caPrivBytes\<rparr>),
        EvGenerateKey P256, EvNow, EvNow,
        EvCreateCertificate
          (clientTemplate (env_Now E (step w0 + 9)) (env_Now E (step w0 + 10)) (env_ParseIP E hostIP))
          (caTemplate (env_Now E (step w0 + 1)) (env_Now E (step w0 + 2)) (env_ParseIP E hostIP))
          (PublicKey clientPriv) caPriv,
        EvCreate p3, EvWrite p3 (EncodeToMemory \<lparr>Type = ''CERTIFICATE'', Bytes = clientCertDER\<rparr>),
        EvCreate p4,
        EvWrite p4 (EncodeToMemory \<lparr>Type = ''EC PRIVATE KEY'', Bytes = clientPrivBytes\<rparr>)]"
proof -
  from assms show thesis
    by (auto simp: GenerateSelfSignedCAWithSAN_def writePEMFile_def world_ops eval_nat_numeral
        split: option.splits prod.splits sum.splits intro!: that)
qed

lemma issuance_created:
  assumes "GenerateSelfSignedCAWithSAN E p1 p2 p3 p4 hostIP w0 = (None, w')"
  obtains caPriv and clientPriv :: ecdsa_PrivateKey where
    "created (drop (step w0) (trace w')) =
       [(caTemplate (env_Now E (step w0 + 1)) (env_Now E (step w0 + 2)) (env_ParseIP E hostIP),
         caTemplate (env_Now E (step w0 + 1)) (env_Now E (step w0 + 2)) (env_ParseIP E hostIP),
         PublicKey caPriv, caPriv),
        (clientTemplate (env_Now E (step w0 + 9)) (env_Now E (step w0 + 10)) (env_ParseIP E hostIP),
         caTemplate (env_Now E (step w0 + 1)) (env_Now E (step w0 + 2)) (env_ParseIP E hostIP),
         PublicKey clientPriv, caPriv)]"
proof -
  from assms obtain caPriv caCertDER caPrivBytes clientPriv clientCertDER clientPrivBytes where
    "env_GenerateKey E (step w0) P256 = Inr caPriv"
    "env_GenerateKey E (step w0 + 8) P256 = Inr clientPriv" and
    t: "trace w' = trace w0 @
       [EvGenerateKey P256, EvNow, EvNow,
        EvCreateCertificate
          (caTemplate (env_Now E (step w0 + 1)) (env_Now E (step w0 + 2)) (env_ParseIP E hostIP))
          (caTemplate (env_Now E (step w0 + 1)) (env_Now E (step w0 + 2)) (env_ParseIP E hostIP))
          (PublicKey caPriv) caPriv,
        EvCreate p1, EvWrite p1 (EncodeToMemory \<lparr>Type = ''CERTIFICATE'', Bytes = caCertDER\<rparr>),
        EvCreate p2, EvWrite p2 (EncodeToMemory \<lparr>Type = ''EC PRIVATE KEY'', Bytes = caPrivBytes\<rparr>),
        EvGenerateKey P256, EvNow, EvNow,
        EvCreateCertificate
          (clientTemplate (env_Now E (step w0 + 9)) (env_Now E (step w0 + 10)) (env_ParseIP E hostIP))
          (caTemplate (env_Now E (step w0 + 1)) (env_Now E (step w0 + 2)) (env_ParseIP E hostIP))
          (PublicKey clientPriv) caPriv,
        EvCreate p3, EvWrite p3 (EncodeToMemory \<lparr>Type = ''CERTIFICATE'', Bytes = clientCertDER\<rparr>),
        EvCreate p4,
        EvWrite p4 (EncodeToMemory \<lparr>Type = ''EC PRIVATE KEY'', Bytes = clientPrivBytes\<rparr>)]"
    by (rule issuance_success)
  show thesis
    by (rule that[of caPriv clientPriv]) (simp add: t step_def)
qed

text \<open>Where no library call and no file operation fails, issuance succeeds.\<close>

lemma issuance_runs:
  assumes gk: "\<And>n c. \<exists>k. env_GenerateKey E n c = Inr k"
    and cc: "\<And>n t p pub priv. \<exists>der. env_CreateCertificate E n t p pub priv = Inr der"
    and mk: "\<And>k. \<exists>b. env_MarshalECPrivateKey E k = Inr b"
    and cr: "\<And>n p. env_Create E n p = None"
    and wr: "\<And>n p. env_Write E n p = None"
  shows "\<exists>w'. GenerateSelfSignedCAWithSAN E p1 p2 p3 p4 hostIP w0 = (None, w')"
proof -
  obtain caPriv where 1: "env_GenerateKey E (step w0) P256 = Inr caPriv"
    using gk by blast
  obtain clientPriv where 2: "env_GenerateKey E (step w0 + 8) P256 = Inr clientPriv"
    using gk by blast
  obtain caDER where 3:
    "env_CreateCertificate E (step w0 + 3)
       (caTemplate (env_Now E (step w0 + 1)) (env_Now E (step w0 + 2)) (env_ParseIP E hostIP))
       (caTemplate (env_Now E (step w0 + 1)) (env_Now E (step w0 + 2)) (env_ParseIP E hostIP))
       (PublicKey caPriv) caPriv = Inr caDER"
    using cc by blast
  obtain clDER where 4:
    "env_CreateCertificate E (step w0 + 11)
       (clientTemplate (env_Now E (step w0 + 9)) (env_Now E (step w0 + 10)) (env_ParseIP E hostIP))
       (caTemplate (env_Now E (step w0 + 1)) (env_Now E (step w0 + 2)) (env_ParseIP E hostIP))
       (PublicKey clientPriv) caPriv = Inr clDER"
    using cc by blast
  obtain b1 where 5: "env_MarshalECPrivateKey E caPriv = Inr b1" using mk by blast
  obtain b2 where 6: "env_MarshalECPrivateKey E clientPriv = Inr b2" using mk by blast
  show ?thesis
    using 1 2 3 4 5 6
    by (simp add: GenerateSelfSignedCAWithSAN_def writePEMFile_def world_ops eval_nat_numeral cr wr)
qed

lemma env0_issuance:
  "\<exists>w'. GenerateSelfSignedCAWithSAN env0 p1 p2 p3 p4 hostIP w0 = (None, w')"
  by (rule issuance_runs) (simp_all add: env0_def)

lemma env0_issued:
  "GenerateSelfSignedCAWithSAN env0 ''ca.crt'' ''ca.key'' ''client.crt'' ''client.key''
     ''10.0.0.5'' w_init = (None, w_issued)"
  using env0_issuance[of "''ca.crt''" "''ca.key''" "''client.crt''" "''client.key''"
      "''10.0.0.5''" w_init]
  by (auto simp: w_issued_def)

lemma env0_reissued:
  "GenerateSelfSignedCAWithSAN env0 ''ca.crt'' ''ca.key'' ''client.crt'' ''client.key''
     ''10.0.0.5'' w_issued = (None, w_reissued)"
  using env0_issuance[of "''ca.crt''" "''ca.key''" "''client.crt''" "''client.key''"
      "''10.0.0.5''" w_issued]
  by (auto simp: w_reissued_def)

lemma clientcert_created:
  assumes "GenerateClientCert E p1 p2 p3 p4 hostIP w0 = (None, w')"
  obtains caCert caKey and clientKey :: ecdsa_PrivateKey where
    "created (drop (step w0) (trace w')) =
       [(clientCertTemplate (env_Now E (step w0 + 3)) (env_Now E (step w0 + 4))
           (env_Now E (step w0 + 5)) (env_ParseIP E hostIP),
         caCert, PublicKey clientKey, caKey)]"
proof -
  from assms show thesis
    by (auto simp: GenerateClientCert_def world_ops eval_nat_numeral
        split: option.splits prod.splits sum.splits intro!: that)
qed

lemma pem_sample_cert:
  "pem_Decode (EncodeToMemory \<lparr>Type = ''CERTIFICATE'', Bytes = ''der''\<rparr>) =
     Some \<lparr>Type = ''CERTIFICATE'', Bytes = ''der''\<rparr>"
  by (rule pem_roundtrip) (simp_all add: LF_def pemStart_def sublist_Cons_right)

lemma pem_sample_key:
  "pem_Decode (EncodeToMemory \<lparr>Type = ''EC PRIVATE KEY'', Bytes = ''key''\<rparr>) =
     Some \<lparr>Type = ''EC PRIVATE KEY'', Bytes = ''key''\<rparr>"
  by (rule pem_roundtrip) (simp_all add: LF_def pemStart_def sublist_Cons_right)

lemma env0_clientcert:
  "GenerateClientCert env0 ''ca.crt'' ''ca.key'' ''client.crt'' ''client.key'' ''10.0.0.5'' w_ca =
     (None, w_client)"
proof -
  have "fst (GenerateClientCert env0 ''ca.crt'' ''ca.key'' ''client.crt'' ''client.key''
               ''10.0.0.5'' w_ca) = None"
    by (simp add: GenerateClientCert_def world_ops w_ca_def env0_def pem_sample_cert pem_sample_key)
  then show ?thesis by (simp add: w_client_def prod_eq_iff)
qed

lemma issuance_step:
  assumes "GenerateSelfSignedCAWithSAN E p1 p2 p3 p4 hostIP w0 = (None, w')"
  shows "step w' = step w0 + 16"
  using assms by (rule issuance_success) (simp add: step_def)


section \<open>What a start did\<close>

lemma issuance_events:
  assumes "GenerateSelfSignedCAWithSAN E p1 p2 p3 p4 hostIP w0 = (None, w')"
  obtains evs caPriv and clientPriv :: ecdsa_PrivateKey where
    "trace w' = trace w0 @ evs"
    "created evs =
       [(caTemplate (env_Now E (step w0 + 1)) (env_Now E (step w0 + 2)) (env_ParseIP E hostIP),
         caTemplate (env_Now E (step w0 + 1)) (env_Now E (step w0 + 2)) (env_ParseIP E hostIP),
         PublicKey caPriv, caPriv),
        (clientTemplate (env_Now E (step w0 + 9)) (env_Now E (step w0 + 10)) (env_ParseIP E hostIP),
         caTemplate (env_Now E (step w0 + 1)) (env_Now E (step w0 + 2)) (env_ParseIP E hostIP),
         PublicKey clientPriv, caPriv)]"
    "written evs = [p1, p2, p3, p4]"
    "commands evs = []"
proof -
  from assms obtain caPriv caCertDER caPrivBytes clientPriv clientCertDER clientPrivBytes where
    "env_GenerateKey E (step w0) P256 = Inr caPriv"
    "env_GenerateKey E (step w0 + 8) P256 = Inr clientPriv" and
    t: "trace w' = trace w0 @
       [EvGenerateKey P256, EvNow, EvNow,
        EvCreateCertificate
          (caTemplate (env_Now E (step w0 + 1)) (env_Now E (step w0 + 2)) (env_ParseIP E hostIP))
          (caTemplate (env_Now E (step w0 + 1)) (env_Now E (step w0 + 2)) (env_ParseIP E hostIP))
          (PublicKey caPriv) caPriv,
        EvCreate p1, EvWrite p1 (EncodeToMemory \<lparr>Type = ''CERTIFICATE'', Bytes = caCertDER\<rparr>),
        EvCreate p2, EvWrite p2 (EncodeToMemory \<lparr>Type = ''EC PRIVATE KEY'', Bytes = caPrivBytes\<rparr>),
        EvGenerateKey P256, EvNow, EvNow,
        EvCreateCertificate
          (clientTemplate (env_Now E (step w0 + 9)) (env_Now E (step w0 + 10)) (env_ParseIP E hostIP))
          (caTemplate (env_Now E (step w0 + 1)) (env_Now E (step w0 + 2)) (env_ParseIP E hostIP))
          (PublicKey clientPriv) caPriv,
        EvCreate p3, EvWrite p3 (EncodeToMemory \<lparr>Type = ''CERTIFICATE'', Bytes = clientCertDER\<rparr>),
        EvCreate p4,
        EvWrite p4 (EncodeToMemory \<lparr>Type = ''EC PRIVATE KEY'', Bytes = clientPrivBytes\<rparr>)]"
    by (rule issuance_success)
  show thesis
    by (rule that[OF t, of caPriv clientPriv]) simp_all
qed

lemma issuance_files:
  assumes "GenerateSelfSignedCAWithSAN E p1 p2 p3 p4 hostIP w0 = (r, w')"
    and "q \<noteq> p1" "q \<noteq> p2" "q \<noteq> p3" "q \<noteq> p4"
  shows "files w' q = files w0 q"
  using assms
  by (auto simp: GenerateSelfSignedCAWithSAN_def writePEMFile_def world_ops
      split: option.splits prod.splits sum.splits)

lemma inVolume_success:
  assumes "GenerateSelfSignedCAInVolume E volumeName volumeCertDir hostIP w0 = (None, w')"
  obtains tempDir evs caPriv and clientPriv :: ecdsa_PrivateKey where
    "env_MkdirTemp E (step w0) [] ''kube-apiserver-certs'' = Inr tempDir"
    "trace w' = trace w0 @ [EvMkdirTemp [] ''kube-apiserver-certs''] @ evs @
       [EvExec (copyIntoVolume_argv volumeName volumeCertDir tempDir), EvRemoveAll tempDir]"
    "created evs =
       [(caTemplate (env_Now E (step w0 + 2)) (env_Now E (step w0 + 3)) (env_ParseIP E hostIP),
         caTemplate (env_Now E (step w0 + 2)) (env_Now E (step w0 + 3)) (env_ParseIP E hostIP),
         PublicKey caPriv, caPriv),
        (clientTemplate (env_Now E (step w0 + 10)) (env_Now E (step w0 + 11)) (env_ParseIP E hostIP),
         caTemplate (env_Now E (step w0 + 2)) (env_Now E (step w0 + 3)) (env_ParseIP E hostIP),
         PublicKey clientPriv, caPriv)]"
    "written evs =
       [filepath_Join tempDir ''ca.crt'', filepath_Join tempDir ''ca.key'',
        filepath_Join tempDir ''client.crt'', filepath_Join tempDir ''client.key'']"
    "commands evs = []"
proof -
  from assms obtain tempDir where
    md: "env_MkdirTemp E (step w0) [] ''kube-apiserver-certs'' = Inr tempDir"
    by (auto simp: GenerateSelfSignedCAInVolume_def os_MkdirTemp_def split: sum.splits prod.splits)
  define w1 where "w1 = emit (EvMkdirTemp [] ''kube-apiserver-certs'') w0"
  from assms md obtain w2 where
    b: "GenerateSelfSignedCAInVolume_body E volumeName volumeCertDir hostIP tempDir w1 = (None, w2)"
    and w': "w' = os_RemoveAll tempDir w2"
    by (auto simp: GenerateSelfSignedCAInVolume_def os_MkdirTemp_def w1_def split: prod.splits)
  from b obtain w3 where
    i: "GenerateSelfSignedCAWithSAN E
             (filepath_Join tempDir ''ca.crt'') (filepath_Join tempDir ''ca.key'')
             (filepath_Join tempDir ''client.crt'') (filepath_Join tempDir ''client.key'')
             hostIP w1 = (None, w3)"
    and w2: "w2 = emit (EvExec (copyIntoVolume_argv volumeName volumeCertDir tempDir)) w3"
    by (auto simp: GenerateSelfSignedCAInVolume_body_def exec_Run_def
        split: option.splits prod.splits)
  have s1: "step w1 = step w0 + 1" by (simp add: w1_def step_def emit_def)
  from i obtain evs caPriv and clientPriv :: ecdsa_PrivateKey where
    e: "trace w3 = trace w1 @ evs"
    "created evs =
       [(caTemplate (env_Now E (step w1 + 1)) (env_Now E (step w1 + 2)) (env_ParseIP E hostIP),
         caTemplate (env_Now E (step w1 + 1)) (env_Now E (step w1 + 2)) (env_ParseIP E hostIP),
         PublicKey caPriv, caPriv),
        (clientTemplate (env_Now E (step w1 + 9)) (env_Now E (step w1 + 10)) (env_ParseIP E hostIP),
         caTemplate (env_Now E (step w1 + 1)) (env_Now E (step w1 + 2)) (env_ParseIP E hostIP),
         PublicKey clientPriv, caPriv)]"
    "written evs =
       [filepath_Join tempDir ''ca.crt'', filepath_Join tempDir ''ca.key'',
        filepath_Join tempDir ''client.crt'', filepath_Join tempDir ''client.key'']"
    "commands evs = []"
    by (rule issuance_events)
  have t: "trace w' = trace w0 @ [EvMkdirTemp [] ''kube-apiserver-certs''] @ evs @
       [EvExec (copyIntoVolume_argv volumeName volumeCertDir tempDir), EvRemoveAll tempDir]"
    by (simp add: w' w2 e(1) w1_def os_RemoveAll_def emit_def)
  have idx: "step w1 + 1 = step w0 + 2" "step w1 + 2 = step w0 + 3"
    "step w1 + 9 = step w0 + 10" "step w1 + 10 = step w0 + 11"
    using s1 by simp_all
  show thesis
    by (rule that[OF md t e(2)[unfolded idx] e(3) e(4)])
qed


lemma Join_below: "prefix (dir @ ''/'') (filepath_Join dir name)"
  by (simp add: filepath_Join_def)

lemma inVolume_runs:
  assumes gk: "\<And>n c. \<exists>k. env_GenerateKey E n c = Inr k"
    and cc: "\<And>n t p pub priv. \<exists>der. env_CreateCertificate E n t p pub priv = Inr der"
    and mk: "\<And>k. \<exists>b. env_MarshalECPrivateKey E k = Inr b"
    and cr: "\<And>n p. env_Create E n p = None"
    and wr: "\<And>n p. env_Write E n p = None"
    and run: "\<And>n argv. env_Run E n argv = None"
    and md: "env_MkdirTemp E (step w0) [] ''kube-apiserver-certs'' = Inr tempDir"
  shows "\<exists>w'. GenerateSelfSignedCAInVolume E volumeName volumeCertDir hostIP w0 = (None, w') \<and>
              (\<forall>q. \<not> prefix (tempDir @ ''/'') q \<longrightarrow> q \<noteq> tempDir \<longrightarrow> files w' q = files w0 q)"
proof -
  define w1 where "w1 = emit (EvMkdirTemp [] ''kube-apiserver-certs'') w0"
  obtain w3 where
    i: "GenerateSelfSignedCAWithSAN E
             (filepath_Join tempDir ''ca.crt'') (filepath_Join tempDir ''ca.key'')
             (filepath_Join tempDir ''client.crt'') (filepath_Join tempDir ''client.key'')
             hostIP w1 = (None, w3)"
    using issuance_runs[OF gk cc mk cr wr] by blast
  define w' where
    "w' = os_RemoveAll tempDir (emit (EvExec (copyIntoVolume_argv volumeName volumeCertDir tempDir)) w3)"
  have r: "GenerateSelfSignedCAInVolume E volumeName volumeCertDir hostIP w0 = (None, w')"
    by (simp add: GenerateSelfSignedCAInVolume_def GenerateSelfSignedCAInVolume_body_def
        os_MkdirTemp_def md w1_def[symmetric] i exec_Run_def run w'_def)
  have f: "files w' q = files w0 q" if "\<not> prefix (tempDir @ ''/'') q" "q \<noteq> tempDir" for q
  proof -
    have ne: "q \<noteq> filepath_Join tempDir name" for name
      using that(1) Join_below[of tempDir name] by auto
    have "files w3 q = files w1 q"
      by (rule issuance_files[OF i ne ne ne ne])
    then show ?thesis using that by (simp add: w'_def os_RemoveAll_def emit_def w1_def)
  qed
  from r f show ?thesis by blast
qed

lemma start_runs:
  assumes gk: "\<And>n c. \<exists>k. env_GenerateKey E n c = Inr k"
    and cc: "\<And>n t p pub priv. \<exists>der. env_CreateCertificate E n t p pub priv = Inr der"
    and mk: "\<And>k. \<exists>b. env_MarshalECPrivateKey E k = Inr b"
    and cr: "\<And>n p. env_Create E n p = None"
    and wr: "\<And>n p. env_Write E n p = None"
    and run: "\<And>n argv. env_Run E n argv = None"
    and st: "\<And>n p. env_Stat E n p = ENOENT"
    and md: "env_MkdirTemp E (step w0 + 2) [] ''kube-apiserver-certs'' = Inr tempDir"
    and out: "\<not> prefix (tempDir @ ''/'') ''./encryption-config.json''"
      "''./encryption-config.json'' \<noteq> tempDir"
    and ep: "etcdEndpoint \<noteq> []"
  shows "\<exists>w'. StartKubeAPIServer E etcdEndpoint containerName volumeName hostIP outputDir w0 =
           (if files w0 ''./encryption-config.json'' = None
            then Some ''encryption configuration file not found at ./encryption-config.json''
            else None, w')"
proof -
  define w1 where "w1 = emit (EvExec [''docker'', ''rm'', ''-f'', containerName]) w0"
  define w2 where "w2 = emit (EvExec [''docker'', ''volume'', ''create'', volumeName]) w1"
  have s2: "step w2 = step w0 + 2" by (simp add: w1_def w2_def step_def emit_def)
  have f2: "files w2 = files w0" by (simp add: w1_def w2_def emit_def)
  from inVolume_runs[OF gk cc mk cr wr run md[folded s2], of volumeName "''/certs''" hostIP]
  obtain w3 where
    v: "GenerateSelfSignedCAInVolume E volumeName ''/certs'' hostIP w2 = (None, w3)"
    and f: "files w3 ''./encryption-config.json'' = files w2 ''./encryption-config.json''"
    using out by blast
  note v' = v[unfolded w2_def w1_def]
  have f': "files w3 ''./encryption-config.json'' = files w0 ''./encryption-config.json''"
    using f f2 by simp
  show ?thesis
  proof (cases "files w0 ''./encryption-config.json'' = None")
    case True
    show ?thesis
      by (simp add: StartKubeAPIServer_def exec_Run_def run ep v' Stat_IsNotExist_def os_Stat_def
          os_IsNotExist_def st f' True)
  next
    case False
    then have nn: "(files w0 ''./encryption-config.json'' = None) = False" by simp
    from False obtain d where d: "files w0 ''./encryption-config.json'' = Some d" by blast
    show ?thesis
      by (simp add: StartKubeAPIServer_def exec_Run_def run ep v' Stat_IsNotExist_def os_Stat_def
          os_IsNotExist_def f' d)
  qed
qed

lemma start_config_missing:
  assumes "StartKubeAPIServer E etcdEndpoint containerName volumeName hostIP outputDir w0 =
             (Some ''encryption configuration file not found at ./encryption-config.json'', w')"
  obtains tempDir evs caPriv and clientPriv :: ecdsa_PrivateKey where
    "env_MkdirTemp E (step w0 + 2) [] ''kube-apiserver-certs'' = Inr tempDir"
    "trace w' = trace w0 @
       [EvExec [''docker'', ''rm'', ''-f'', containerName],
        EvExec [''docker'', ''volume'', ''create'', volumeName],
        EvMkdirTemp [] ''kube-apiserver-certs''] @ evs @
       [EvExec (copyIntoVolume_argv volumeName ''/certs'' tempDir), EvRemoveAll tempDir,
        EvStat ''./encryption-config.json'']"
    "created evs =
       [(caTemplate (env_Now E (step w0 + 4)) (env_Now E (step w0 + 5)) (env_ParseIP E hostIP),
         caTemplate (env_Now E (step w0 + 4)) (env_Now E (step w0 + 5)) (env_ParseIP E hostIP),
         PublicKey caPriv, caPriv),
        (clientTemplate (env_Now E (step w0 + 12)) (env_Now E (step w0 + 13)) (env_ParseIP E hostIP),
         caTemplate (env_Now E (step w0 + 4)) (env_Now E (step w0 + 5)) (env_ParseIP E hostIP),
         PublicKey clientPriv, caPriv)]"
    "written evs =
       [filepath_Join tempDir ''ca.crt'', filepath_Join tempDir ''ca.key'',
        filepath_Join tempDir ''client.crt'', filepath_Join tempDir ''client.key'']"
    "commands evs = []"
proof -
  define w1 where "w1 = emit (EvExec [''docker'', ''rm'', ''-f'', containerName]) w0"
  define w2 where "w2 = emit (EvExec [''docker'', ''volume'', ''create'', volumeName]) w1"
  from assms obtain w3 where
    v: "GenerateSelfSignedCAInVolume E volumeName ''/certs'' hostIP w2 = (None, w3)"
    and w': "w' = emit (EvStat ''./encryption-config.json'') w3"
    by (auto simp: StartKubeAPIServer_def exec_Run_def Stat_IsNotExist_def os_Stat_def
        os_IsNotExist_def w1_def w2_def
        split: option.splits prod.splits if_splits bool.splits)
  have s2: "step w2 = step w0 + 2" by (simp add: w1_def w2_def step_def emit_def)
  from v obtain tempDir evs caPriv and clientPriv :: ecdsa_PrivateKey where
    e: "env_MkdirTemp E (step w2) [] ''kube-apiserver-certs'' = Inr tempDir"
    "trace w3 = trace w2 @ [EvMkdirTemp [] ''kube-apiserver-certs''] @ evs @
       [EvExec (copyIntoVolume_argv volumeName ''/certs'' tempDir), EvRemoveAll tempDir]"
    "created evs =
       [(caTemplate (env_Now E (step w2 + 2)) (env_Now E (step w2 + 3)) (env_ParseIP E hostIP),
         caTemplate (env_Now E (step w2 + 2)) (env_Now E (step w2 + 3)) (env_ParseIP E hostIP),
         PublicKey caPriv, caPriv),
        (clientTemplate (env_Now E (step w2 + 10)) (env_Now E (step w2 + 11)) (env_ParseIP E hostIP),
         caTemplate (env_Now E (step w2 + 2)) (env_Now E (step w2 + 3)) (env_ParseIP E hostIP),
         PublicKey clientPriv, caPriv)]"
    "written evs =
       [filepath_Join tempDir ''ca.crt'', filepath_Join tempDir ''ca.key'',
        filepath_Join tempDir ''client.crt'', filepath_Join tempDir ''client.key'']"
    "commands evs = []"
    by (rule inVolume_success)
  have idx: "step w2 + 2 = step w0 + 4" "step w2 + 3 = step w0 + 5"
    "step w2 + 10 = step w0 + 12" "step w2 + 11 = step w0 + 13"
    using s2 by simp_all
  have t: "trace w' = trace w0 @
       [EvExec [''docker'', ''rm'', ''-f'', containerName],
        EvExec [''docker'', ''volume'', ''create'', volumeName],
        EvMkdirTemp [] ''kube-apiserver-certs''] @ evs @
       [EvExec (copyIntoVolume_argv volumeName ''/certs'' tempDir), EvRemoveAll tempDir,
        EvStat ''./encryption-config.json'']"
    by (simp add: w' e(2) w1_def w2_def emit_def)
  show thesis
    by (rule that[OF e(1)[unfolded s2] t e(3)[unfolded idx] e(4) e(5)])
qed

lemma restore_missing_snapshot:
  assumes "files w0 snapshotPath = None" and "env_Stat E (step w0) snapshotPath = ENOENT"
  shows "RestoreEtcdSnapshot E snapshotPath containerName volumeName w0 =
           (Some (''snapshot file not found: '' @ snapshotPath), emit (EvStat snapshotPath) w0)"
  using assms by (simp add: RestoreEtcdSnapshot_def Stat_IsNotExist_def os_Stat_def os_IsNotExist_def)

lemma env0_start_failed:
  "StartKubeAPIServer env0 ''http://127.0.0.1:2379'' ''kube-apiserver''
     ''kube-apiserver-certs'' ''10.0.0.5'' [] w_init =
   (Some ''encryption configuration file not found at ./encryption-config.json'', w_start_failed)"
proof -
  have md: "env_MkdirTemp env0 (step w_init + 2) [] ''kube-apiserver-certs'' =
              Inr ''/tmp/kube-apiserver-certs1''"
    by (simp add: env0_def)
  have "\<exists>w'. StartKubeAPIServer env0 ''http://127.0.0.1:2379'' ''kube-apiserver''
     ''kube-apiserver-certs'' ''10.0.0.5'' [] w_init =
           (if files w_init ''./encryption-config.json'' = None
            then Some ''encryption configuration file not found at ./encryption-config.json''
            else None, w')"
    by (rule start_runs[OF _ _ _ _ _ _ _ md]) (simp_all add: env0_def)
  then show ?thesis by (auto simp: w_start_failed_def w_init_def)
qed



section \<open>What a failed copy leaves behind\<close>

lemma Join_distinct:
  "filepath_Join d ''ca.crt'' \<noteq> filepath_Join d ''client.crt''"
  "filepath_Join d ''ca.crt'' \<noteq> filepath_Join d ''client.key''"
  "filepath_Join d ''client.crt'' \<noteq> filepath_Join d ''client.key''"
  by (simp_all add: filepath_Join_def)

lemma kubeconfig_body_missing:
  assumes "env_Run E (step w1)
             [''docker'', ''cp'', containerName @ '':'' @ ''/certs/ca.crt'',
              filepath_Join tempDir ''ca.crt''] \<noteq> None \<or>
           env_Run E (step w1 + 1)
             [''docker'', ''cp'', containerName @ '':'' @ ''/certs/client.crt'',
              filepath_Join tempDir ''client.crt''] \<noteq> None \<or>
           env_Run E (step w1 + 2)
             [''docker'', ''cp'', containerName @ '':'' @ ''/certs/client.key'',
              filepath_Join tempDir ''client.key''] \<noteq> None"
  shows "\<exists>err w2. GenerateKubeconfig_body E kubeconfigPath serverURL containerName tempDir w1 =
                     (Some err, w2) \<and>
           (prefix ''failed to copy CA certificate from container: '' err \<or>
            prefix ''failed to copy client certificate from container: '' err \<or>
            prefix ''failed to copy client key from container: '' err) \<and>
           (\<exists>evs. trace w2 = trace w1 @ evs \<and> filter writes_file evs = []) \<and>
           (\<forall>q. \<not> prefix (tempDir @ ''/'') q \<longrightarrow> files w2 q = files w1 q)"
proof (cases "env_Run E (step w1)
             [''docker'', ''cp'', containerName @ '':'' @ ''/certs/ca.crt'',
              filepath_Join tempDir ''ca.crt'']")
  case (Some e)
  then show ?thesis
    by (simp add: GenerateKubeconfig_body_def copyFileFromContainer_def exec_Run_def step_def emit_def)
next
  case n1: None
  show ?thesis
  proof (cases "env_Run E (step w1 + 1)
             [''docker'', ''cp'', containerName @ '':'' @ ''/certs/client.crt'',
              filepath_Join tempDir ''client.crt'']")
    case (Some e)
    with n1 show ?thesis
      by (auto simp: GenerateKubeconfig_body_def copyFileFromContainer_def exec_Run_def step_def
          emit_def filepath_Join_def)
  next
    case n2: None
    with n1 assms obtain e where
      "env_Run E (step w1 + 2)
         [''docker'', ''cp'', containerName @ '':'' @ ''/certs/client.key'',
          filepath_Join tempDir ''client.key''] = Some e"
      by auto
    with n1 n2 show ?thesis
      by (auto simp: GenerateKubeconfig_body_def copyFileFromContainer_def exec_Run_def step_def
          emit_def filepath_Join_def eval_nat_numeral)
  qed
qed
section \<open>Claim C1: serial numbers\<close>

text \<open>
  Every successful run of \<^verbatim>\<open>GenerateSelfSignedCAWithSAN\<close> makes a CA certificate with
  serial number 1 and a client certificate with serial number 2: the two templates set
  \<^verbatim>\<open>big.NewInt(1)\<close> and \<^verbatim>\<open>big.NewInt(2)\<close>.
\<close>

lemma issuance_serials:
  assumes "GenerateSelfSignedCAWithSAN E caCertPath caKeyPath clientCertPath clientKeyPath
             hostIP w0 = (None, w1)"
  shows "serials (drop (step w0) (trace w1)) = [(True, 1), (False, 2)]"
proof -
  from assms obtain caPriv and clientPriv :: ecdsa_PrivateKey where
    c: "created (drop (step w0) (trace w1)) =
       [(caTemplate (env_Now E (step w0 + 1)) (env_Now E (step w0 + 2)) (env_ParseIP E hostIP),
         caTemplate (env_Now E (step w0 + 1)) (env_Now E (step w0 + 2)) (env_ParseIP E hostIP),
         PublicKey caPriv, caPriv),
        (clientTemplate (env_Now E (step w0 + 9)) (env_Now E (step w0 + 10)) (env_ParseIP E hostIP),
         caTemplate (env_Now E (step w0 + 1)) (env_Now E (step w0 + 2)) (env_ParseIP E hostIP),
         PublicKey clientPriv, caPriv)]"
    by (rule issuance_created)
  show ?thesis unfolding serials_def c by (simp add: caTemplate_def clientTemplate_def)
qed

text \<open>
  The sibling \<^verbatim>\<open>GenerateClientCert\<close>, which issues a leaf for an existing CA, does
  what the claim describes: the serial number of its certificate is the clock reading
  at generation, in whole seconds since the epoch.
\<close>

lemma clientcert_serial:
  assumes "GenerateClientCert E caCertPath caKeyPath clientCertPath clientKeyPath
             hostIP v0 = (None, v1)"
  shows "serials (drop (step v0) (trace v1)) = [(False, Unix (env_Now E (step v0 + 3)))]"
proof -
  from assms obtain caCert caKey and clientKey :: ecdsa_PrivateKey where
    c: "created (drop (step v0) (trace v1)) =
       [(clientCertTemplate (env_Now E (step v0 + 3)) (env_Now E (step v0 + 4))
           (env_Now E (step v0 + 5)) (env_ParseIP E hostIP),
         caCert, PublicKey clientKey, caKey)]"
    by (rule clientcert_created)
  show ?thesis unfolding serials_def c by (simp add: clientCertTemplate_def)
qed

text \<open>
  Claim C1, evaluated where the code departs from it. In the sample environment the
  clock advances with every event, so two successive issuance calls generate their
  certificates at different seconds. Both calls succeed. In each the CA certificate
  has serial number 1 and the client certificate serial number 2: the two client
  certificates have equal serial numbers, and neither is a clock reading.
\<close>

theorem C1_successive_client_serials_equal:
  "GenerateSelfSignedCAWithSAN env0 ''ca.crt'' ''ca.key'' ''client.crt'' ''client.key''
     ''10.0.0.5'' w_init = (None, w_issued) \<and>
   GenerateSelfSignedCAWithSAN env0 ''ca.crt'' ''ca.key'' ''client.crt'' ''client.key''
     ''10.0.0.5'' w_issued = (None, w_reissued) \<and>
   serials (drop (step w_init) (trace w_issued)) = [(True, 1), (False, 2)] \<and>
   serials (drop (step w_issued) (trace w_reissued)) = [(True, 1), (False, 2)] \<and>
   Unix (env_Now env0 (step w_init + 9)) \<noteq> Unix (env_Now env0 (step w_issued + 9))"
proof -
  have st: "step w_init = 0" "step w_issued = 16"
    using issuance_step[OF env0_issued] by (simp_all add: step_def w_init_def)
  have t: "Unix (env_Now env0 (step w_init + 9)) \<noteq> Unix (env_Now env0 (step w_issued + 9))"
    unfolding st by (simp add: env0_def Unix_def)
  from env0_issued env0_reissued issuance_serials[OF env0_issued]
    issuance_serials[OF env0_reissued] t
  show ?thesis by simp
qed

section \<open>Claim C2: PEM round trip\<close>

lemma EncodeToString_x: "EncodeToString ''x'' = ''eA==''"
  by (simp add: enc_def encodeStd_def padChar_def)

lemma breakLines_x: "breakLines ''eA=='' = ''eA=='' @ [LF]"
  by (subst breakLines.simps) simp

text \<open>
  Claim C2 as stated, for every block type and every byte sequence, fails: the decoder
  reads the type from a single line, so a type that holds a line feed is cut at the
  line feed, the BEGIN line is rejected, and no block is found.
\<close>

theorem C2_line_feed_in_type_counterexample: "pem_Decode (EncodeToMemory \<lparr>Type = ''A\<newline>B'', Bytes = ''x''\<rparr>) = None"
proof -
  define rest1 where "rest1 = ''B-----'' @ [LF] @ ''eA=='' @ [LF] @ ''-----END A'' @ [LF] @ ''B-----'' @ [LF]"
  define doc where "doc = tl pemStart @ ''A'' @ LF # rest1"
  have nl: "''A\<newline>B'' = ''A'' @ [LF] @ ''B''" by (simp add: LF_def)
  have e: "EncodeToMemory \<lparr>Type = ''A\<newline>B'', Bytes = ''x''\<rparr> = doc"
    unfolding EncodeToMemory_def pem_Block.select_convs EncodeToString_x breakLines_x
    by (simp add: pemStart_def pemEnd_def pemEndOfLine_def rest1_def nl doc_def)
  have ix: "Index doc pemEnd = Some 24"
    by (simp add: doc_def rest1_def pemStart_def pemEnd_def LF_def)
  have tk: "take 24 doc = tl pemStart @ ''A'' @ [LF] @ ''B-----'' @ [LF] @ ''eA==''"
    by (simp add: doc_def rest1_def pemStart_def)
  have li: "LastIndex (take 24 doc) (tl pemStart) = Some 0"
    unfolding tk by (simp add: pemStart_def LF_def)
  have d1: "drop (0 + length pemStart - 1) doc = ''A'' @ LF # rest1"
    by (simp add: doc_def pemStart_def)
  have g: "getLine (''A'' @ LF # rest1) = (''A'', rest1, Suc (length ''A''))"
    by (rule getLine_line) (simp_all add: LF_def TAB_def CR_def)
  have d: "decodeAt doc = Continue rest1 23"
    unfolding decodeAt_def ix option.case Let_def li d1 g prod.case
    by (simp add: pemEndOfLine_def suffix_def pemEnd_def pemStart_def)
  have ix2: "Index (drop 23 rest1) pemEnd = None"
    by (simp add: rest1_def pemEnd_def LF_def)
  have d2: "decodeAt (drop (nat 23) rest1) = NoBlock"
    unfolding decodeAt_def using ix2 by simp
  have c1: "\<not> ((0::int) < 0 \<or> int (length doc) < 0)" by simp
  have c2: "\<not> ((23::int) < 0 \<or> int (length rest1) < 23)" by (simp add: rest1_def)
  have d0: "decodeAt (drop (nat 0) doc) = Continue rest1 23" using d by simp
  show ?thesis
    unfolding e pem_Decode_def
    by (subst Decode_loop.simps, simp only: c1 if_False d0 attempt.case)
       (subst Decode_loop.simps, simp only: c2 if_False d2 attempt.case)
qed

text \<open>
  Two more families of inputs fail. With no bytes at all the END line directly follows
  the BEGIN line, and a colon in the type makes the decoder take the END line for a
  header line. And the decoder starts from the last BEGIN marker before the first END
  line, which must open a line: a type that holds the marker text hides the real one.
\<close>

lemma pem_colon_type_empty_bytes: "pem_Decode (EncodeToMemory \<lparr>Type = ''A:B'', Bytes = []\<rparr>) = None"
proof -
  define R where "R = ''-----END A:B-----'' @ [LF]"
  define doc where "doc = tl pemStart @ ''A:B-----'' @ LF # R"
  have bl: "breakLines [] = []" by (subst breakLines.simps) simp
  have e: "EncodeToMemory \<lparr>Type = ''A:B'', Bytes = []\<rparr> = doc"
    unfolding EncodeToMemory_def pem_Block.select_convs EncodeToString.simps bl
    by (simp add: pemStart_def pemEnd_def pemEndOfLine_def R_def doc_def)
  have ix: "Index doc pemEnd = Some 19"
    by (simp add: doc_def R_def pemStart_def pemEnd_def LF_def)
  have tk: "take 19 doc = tl pemStart @ ''A:B-----''"
    by (simp add: doc_def R_def pemStart_def)
  have li: "LastIndex (take 19 doc) (tl pemStart) = Some 0"
    unfolding tk by (simp add: pemStart_def)
  have d1: "drop (0 + length pemStart - 1) doc = ''A:B-----'' @ LF # R"
    by (simp add: doc_def pemStart_def)
  have g: "getLine (''A:B-----'' @ LF # R) = (''A:B-----'', R, Suc (length ''A:B-----''))"
    by (rule getLine_line) (simp_all add: LF_def TAB_def CR_def)
  have g2: "getLine R = (''-----END A:B-----'', [], Suc (length ''-----END A:B-----''))"
    unfolding R_def using getLine_line[of "''-----END A:B-----''" "[]"]
    by (simp add: LF_def TAB_def CR_def)
  have h0: "headerLines [] True m n = None" for m n by (subst headerLines.simps) simp
  have h: "headerLines R False m n = None" for m n
    unfolding headerLines.simps[of R False] g2 prod.case h0 by (simp add: R_def)
  have d: "decodeAt doc = NoBlock"
    unfolding decodeAt_def ix option.case Let_def li d1 g prod.case h
    by (simp add: pemEndOfLine_def suffix_def)
  have c1: "\<not> ((0::int) < 0 \<or> int (length doc) < 0)" by simp
  have d0: "decodeAt (drop (nat 0) doc) = NoBlock" using d by simp
  show ?thesis
    unfolding e pem_Decode_def
    by (subst Decode_loop.simps, simp only: c1 if_False d0 attempt.case)
qed

lemma pem_begin_in_type: "pem_Decode (EncodeToMemory \<lparr>Type = ''X-----BEGIN Y'', Bytes = ''x''\<rparr>) = None"
proof -
  define doc where "doc = ''-----BEGIN X-----BEGIN Y-----'' @ [LF] @ ''eA=='' @ [LF] @ ''-----END X-----BEGIN Y-----'' @ [LF]"
  have e: "EncodeToMemory \<lparr>Type = ''X-----BEGIN Y'', Bytes = ''x''\<rparr> = doc"
    unfolding EncodeToMemory_def pem_Block.select_convs EncodeToString_x breakLines_x
    by (simp add: pemStart_def pemEnd_def pemEndOfLine_def doc_def)
  have ix: "Index doc pemEnd = Some 34"
    by (simp add: doc_def pemEnd_def LF_def)
  have tk: "take 34 doc = ''-----BEGIN X-----BEGIN Y-----'' @ [LF] @ ''eA==''"
    by (simp add: doc_def)
  have li: "LastIndex (take 34 doc) (tl pemStart) = Some 12"
    unfolding tk by (simp add: pemStart_def LF_def)
  have nth: "doc ! (12 - 1) = CHR ''X''" by (simp add: doc_def)
  have d: "decodeAt doc = Continue doc 44"
    unfolding decodeAt_def ix option.case Let_def li nth
    by (simp add: pemEnd_def LF_def)
  have ix2: "Index (drop 44 doc) pemEnd = None"
    by (simp add: doc_def pemEnd_def LF_def)
  have d2: "decodeAt (drop (nat 44) doc) = NoBlock"
    unfolding decodeAt_def using ix2 by simp
  have c1: "\<not> ((0::int) < 0 \<or> int (length doc) < 0)" by simp
  have c2: "\<not> ((44::int) < 0 \<or> int (length doc) < 44)" by (simp add: doc_def)
  have d0: "decodeAt (drop (nat 0) doc) = Continue doc 44" using d by simp
  show ?thesis
    unfolding e pem_Decode_def
    by (subst Decode_loop.simps, simp only: c1 if_False d0 attempt.case)
       (subst Decode_loop.simps, simp only: c2 if_False d2 attempt.case)
qed

text \<open>
  Claim C2, amended: for every block type without a line feed and without the marker
  text \<^verbatim>\<open>-----BEGIN \<close>, and every byte sequence (non-empty, or with a type
  that holds no colon), decoding the PEM text that \<^verbatim>\<open>pem.Encode\<close> writes for
  them returns exactly the type and the bytes. The two types the repository writes,
  \<^verbatim>\<open>CERTIFICATE\<close> and \<^verbatim>\<open>EC PRIVATE KEY\<close>, are covered whatever the bytes.
\<close>

theorem C2_pem_round_trip:
  assumes "LF \<notin> set ty" and "\<not> sublist ''-----BEGIN '' ty"
    and "bs \<noteq> [] \<or> CHR '':'' \<notin> set ty"
  shows "pem_Decode (EncodeToMemory \<lparr>Type = ty, Bytes = bs\<rparr>) = Some \<lparr>Type = ty, Bytes = bs\<rparr>"
proof -
  have "tl pemStart = ''-----BEGIN ''" by (simp add: pemStart_def)
  with assms(2) have "\<not> sublist (tl pemStart) ty" by simp
  with assms(1) show ?thesis using assms(3) by (rule pem_roundtrip)
qed

theorem C2_pem_round_trip_witness:
  "LF \<notin> set ''CERTIFICATE'' \<and> \<not> sublist ''-----BEGIN '' ''CERTIFICATE'' \<and> ''hello'' \<noteq> [] \<and>
   pem_Decode (EncodeToMemory \<lparr>Type = ''CERTIFICATE'', Bytes = ''hello''\<rparr>) =
     Some \<lparr>Type = ''CERTIFICATE'', Bytes = ''hello''\<rparr>"
  using C2_pem_round_trip[of "''CERTIFICATE''" "''hello''"]
  by (simp add: LF_def sublist_Cons_right)

section \<open>Claim C3: a missing input file\<close>

text \<open>
  The half of claim C3 about \<^verbatim>\<open>restore\<close> holds: a missing snapshot file (nothing at
  the path, and \<^verbatim>\<open>os.Stat\<close> says so with "no such file") is the first thing
  \<^verbatim>\<open>RestoreEtcdSnapshot\<close> finds out, and the one event of the run is the look at
  the path.
\<close>

lemma restore_checks_snapshot_first:
  assumes "files w0 snapshotPath = None" and "env_Stat E (step w0) snapshotPath = ENOENT"
  shows "\<exists>w'. RestoreEtcdSnapshot E snapshotPath containerName volumeName w0 =
                (Some (''snapshot file not found: '' @ snapshotPath), w') \<and>
              trace w' = trace w0 @ [EvStat snapshotPath] \<and> files w' = files w0"
  using restore_missing_snapshot[OF assms] by (simp add: emit_def)

text \<open>
  Claim C3, the half about \<^verbatim>\<open>start\<close>, evaluated where the code departs from it: every
  outside call succeeds and \<^verbatim>\<open>./encryption-config.json\<close> does not exist. The run ends
  with the error about the missing file, and the look at the file is its last event:
  before it the old server container was removed, the volume created, two certificates
  made and four files written in a temporary directory, and a helper container run to
  copy them into the volume.
\<close>

theorem C3_start_checks_config_last:
  "files w_init ''./encryption-config.json'' = None \<and>
   StartKubeAPIServer env0 ''http://127.0.0.1:2379'' ''kube-apiserver''
     ''kube-apiserver-certs'' ''10.0.0.5'' [] w_init =
     (Some ''encryption configuration file not found at ./encryption-config.json'',
      w_start_failed) \<and>
   last (trace w_start_failed) = EvStat ''./encryption-config.json'' \<and>
   commands (trace w_start_failed) =
     [[''docker'', ''rm'', ''-f'', ''kube-apiserver''],
      [''docker'', ''volume'', ''create'', ''kube-apiserver-certs''],
      copyIntoVolume_argv ''kube-apiserver-certs'' ''/certs'' ''/tmp/kube-apiserver-certs1''] \<and>
   length (created (trace w_start_failed)) = 2 \<and>
   written (trace w_start_failed) =
     [''/tmp/kube-apiserver-certs1/ca.crt'', ''/tmp/kube-apiserver-certs1/ca.key'',
      ''/tmp/kube-apiserver-certs1/client.crt'', ''/tmp/kube-apiserver-certs1/client.key'']"
proof -
  have f: "files w_init ''./encryption-config.json'' = None" by (simp add: w_init_def)
  have t0: "trace w_init = []" by (simp add: w_init_def)
  from env0_start_failed obtain tempDir evs caPriv and clientPriv :: ecdsa_PrivateKey where
    e: "env_MkdirTemp env0 (step w_init + 2) [] ''kube-apiserver-certs'' = Inr tempDir"
    "trace w_start_failed = trace w_init @
       [EvExec [''docker'', ''rm'', ''-f'', ''kube-apiserver''],
        EvExec [''docker'', ''volume'', ''create'', ''kube-apiserver-certs''],
        EvMkdirTemp [] ''kube-apiserver-certs''] @ evs @
       [EvExec (copyIntoVolume_argv ''kube-apiserver-certs'' ''/certs'' tempDir),
        EvRemoveAll tempDir, EvStat ''./encryption-config.json'']"
    "created evs =
       [(caTemplate (env_Now env0 (step w_init + 4)) (env_Now env0 (step w_init + 5))
           (env_ParseIP env0 ''10.0.0.5''),
         caTemplate (env_Now env0 (step w_init + 4)) (env_Now env0 (step w_init + 5))
           (env_ParseIP env0 ''10.0.0.5''),
         PublicKey caPriv, caPriv),
        (clientTemplate (env_Now env0 (step w_init + 12)) (env_Now env0 (step w_init + 13))
           (env_ParseIP env0 ''10.0.0.5''),
         caTemplate (env_Now env0 (step w_init + 4)) (env_Now env0 (step w_init + 5))
           (env_ParseIP env0 ''10.0.0.5''),
         PublicKey clientPriv, caPriv)]"
    "written evs =
       [filepath_Join tempDir ''ca.crt'', filepath_Join tempDir ''ca.key'',
        filepath_Join tempDir ''client.crt'', filepath_Join tempDir ''client.key'']"
    "commands evs = []"
    by (rule start_config_missing)
  from e(1) have td: "tempDir = ''/tmp/kube-apiserver-certs1''" by (simp add: env0_def)
  have 1: "last (trace w_start_failed) = EvStat ''./encryption-config.json''"
    by (simp add: e(2))
  have 2: "commands (trace w_start_failed) =
     [[''docker'', ''rm'', ''-f'', ''kube-apiserver''],
      [''docker'', ''volume'', ''create'', ''kube-apiserver-certs''],
      copyIntoVolume_argv ''kube-apiserver-certs'' ''/certs'' ''/tmp/kube-apiserver-certs1'']"
    by (simp add: e(2) t0 commands_append e(5) td)
  have 3: "length (created (trace w_start_failed)) = 2"
    by (simp add: e(2) t0 created_append e(3))
  have 4: "written (trace w_start_failed) =
     [''/tmp/kube-apiserver-certs1/ca.crt'', ''/tmp/kube-apiserver-certs1/ca.key'',
      ''/tmp/kube-apiserver-certs1/client.crt'', ''/tmp/kube-apiserver-certs1/client.key'']"
    by (simp add: e(2) t0 written_append e(4) td filepath_Join_def)
  from f env0_start_failed 1 2 3 4 show ?thesis by simp
qed

section \<open>Claims C4 and C5: the kubeconfig\<close>

text \<open>
  Claim C4: the temporary directory exists and at least one of the three
  \<^verbatim>\<open>docker cp\<close> commands fails. Then \<^verbatim>\<open>GenerateKubeconfig\<close> returns the error of
  the first copy that failed, under its message for the artifact, and no output document
  is written: the run creates no file and writes to none, and at the end the path of
  the kubeconfig holds what it held before (or nothing, when the path lies in the
  temporary directory that the run removes).
\<close>

theorem C4_missing_artifact:
  assumes "env_MkdirTemp E (step w0) [] ''kubeconfig-certs'' = Inr tempDir"
    and "env_Run E (step w0 + 1)
           [''docker'', ''cp'', containerName @ '':'' @ ''/certs/ca.crt'',
            filepath_Join tempDir ''ca.crt''] \<noteq> None \<or>
         env_Run E (step w0 + 2)
           [''docker'', ''cp'', containerName @ '':'' @ ''/certs/client.crt'',
            filepath_Join tempDir ''client.crt''] \<noteq> None \<or>
         env_Run E (step w0 + 3)
           [''docker'', ''cp'', containerName @ '':'' @ ''/certs/client.key'',
            filepath_Join tempDir ''client.key''] \<noteq> None"
  shows "\<exists>err w'. GenerateKubeconfig E kubeconfigPath serverURL containerName w0 =
                     (Some err, w') \<and>
           (prefix ''failed to copy CA certificate from container: '' err \<or>
            prefix ''failed to copy client certificate from container: '' err \<or>
            prefix ''failed to copy client key from container: '' err) \<and>
           filter writes_file (drop (step w0) (trace w')) = [] \<and>
           (files w' kubeconfigPath = files w0 kubeconfigPath \<or> files w' kubeconfigPath = None)"
proof -
  define w1 where "w1 = emit (EvMkdirTemp [] ''kubeconfig-certs'') w0"
  have s1: "step w1 = step w0 + 1" by (simp add: w1_def step_def emit_def)
  have t1: "trace w1 = trace w0 @ [EvMkdirTemp [] ''kubeconfig-certs'']"
    by (simp add: w1_def emit_def)
  have f1: "files w1 = files w0" by (simp add: w1_def emit_def)
  have a: "env_Run E (step w1)
             [''docker'', ''cp'', containerName @ '':'' @ ''/certs/ca.crt'',
              filepath_Join tempDir ''ca.crt''] \<noteq> None \<or>
           env_Run E (step w1 + 1)
             [''docker'', ''cp'', containerName @ '':'' @ ''/certs/client.crt'',
              filepath_Join tempDir ''client.crt''] \<noteq> None \<or>
           env_Run E (step w1 + 2)
             [''docker'', ''cp'', containerName @ '':'' @ ''/certs/client.key'',
              filepath_Join tempDir ''client.key''] \<noteq> None"
    using assms(2) by (simp add: s1 eval_nat_numeral)
  from kubeconfig_body_missing[OF a, of kubeconfigPath serverURL] obtain err w2 where
    b: "GenerateKubeconfig_body E kubeconfigPath serverURL containerName tempDir w1 = (Some err, w2)"
    and m: "prefix ''failed to copy CA certificate from container: '' err \<or>
            prefix ''failed to copy client certificate from container: '' err \<or>
            prefix ''failed to copy client key from container: '' err"
    and fs: "\<forall>q. \<not> prefix (tempDir @ ''/'') q \<longrightarrow> files w2 q = files w1 q"
    and "\<exists>evs. trace w2 = trace w1 @ evs \<and> filter writes_file evs = []"
    by blast
  then obtain evs where t2: "trace w2 = trace w1 @ evs" and nw: "filter writes_file evs = []"
    by blast
  define w' where "w' = os_RemoveAll tempDir w2"
  have r: "GenerateKubeconfig E kubeconfigPath serverURL containerName w0 = (Some err, w')"
    by (simp add: GenerateKubeconfig_def os_MkdirTemp_def assms(1) w1_def[symmetric] b w'_def)
  have "trace w' = trace w0 @ [EvMkdirTemp [] ''kubeconfig-certs''] @ evs @ [EvRemoveAll tempDir]"
    by (simp add: w'_def os_RemoveAll_def emit_def t2 t1)
  then have nw': "filter writes_file (drop (step w0) (trace w')) = []"
    using nw by (simp add: step_def)
  have fk: "files w' kubeconfigPath = files w0 kubeconfigPath \<or> files w' kubeconfigPath = None"
  proof (cases "kubeconfigPath = tempDir \<or> prefix (tempDir @ ''/'') kubeconfigPath")
    case True
    then show ?thesis by (auto simp: w'_def os_RemoveAll_def emit_def)
  next
    case False
    with fs f1 show ?thesis by (simp add: w'_def os_RemoveAll_def emit_def)
  qed
  from r m nw' fk show ?thesis by blast
qed


theorem C4_missing_artifact_witness:
  "env_MkdirTemp env_no_key (step w_init) [] ''kubeconfig-certs'' = Inr ''/tmp/kubeconfig-certs1'' \<and>
   env_Run env_no_key (step w_init + 3)
     [''docker'', ''cp'', ''kube-apiserver'' @ '':'' @ ''/certs/client.key'',
      filepath_Join ''/tmp/kubeconfig-certs1'' ''client.key''] \<noteq> None \<and>
   (\<exists>err w'. GenerateKubeconfig env_no_key ''kubeconfig.yaml'' ''https://10.0.0.5:6443''
                 ''kube-apiserver'' w_init = (Some err, w') \<and>
      (prefix ''failed to copy CA certificate from container: '' err \<or>
       prefix ''failed to copy client certificate from container: '' err \<or>
       prefix ''failed to copy client key from container: '' err) \<and>
      filter writes_file (drop (step w_init) (trace w')) = [] \<and>
      (files w' ''kubeconfig.yaml'' = files w_init ''kubeconfig.yaml'' \<or>
       files w' ''kubeconfig.yaml'' = None))"
proof -
  have md: "env_MkdirTemp env_no_key (step w_init) [] ''kubeconfig-certs'' =
              Inr ''/tmp/kubeconfig-certs1''"
    by (simp add: env_no_key_def env0_def)
  have k: "env_Run env_no_key (step w_init + 3)
     [''docker'', ''cp'', ''kube-apiserver'' @ '':'' @ ''/certs/client.key'',
      filepath_Join ''/tmp/kubeconfig-certs1'' ''client.key''] \<noteq> None"
    by (simp add: env_no_key_def env0_def filepath_Join_def)
  have "\<exists>err w'. GenerateKubeconfig env_no_key ''kubeconfig.yaml'' ''https://10.0.0.5:6443''
                 ''kube-apiserver'' w_init = (Some err, w') \<and>
      (prefix ''failed to copy CA certificate from container: '' err \<or>
       prefix ''failed to copy client certificate from container: '' err \<or>
       prefix ''failed to copy client key from container: '' err) \<and>
      filter writes_file (drop (step w_init) (trace w')) = [] \<and>
      (files w' ''kubeconfig.yaml'' = files w_init ''kubeconfig.yaml'' \<or>
       files w' ''kubeconfig.yaml'' = None)"
    using k by (intro C4_missing_artifact[OF md]) blast
  with md k show ?thesis by blast
qed

text \<open>
  Claim C5: the temporary directory exists, the three \<^verbatim>\<open>docker cp\<close> commands succeed,
  the kubeconfig file can be created and written, and its path is not inside the
  temporary directory. Then \<^verbatim>\<open>GenerateKubeconfig\<close> succeeds and leaves at the path the
  document written out below: the line \<^verbatim>\<open>server:\<close> holds the given server address,
  and the lines \<^verbatim>\<open>certificate-authority-data:\<close>, \<^verbatim>\<open>client-certificate-data:\<close> and
  \<^verbatim>\<open>client-key-data:\<close> each hold a base64 text without a line feed. Decoding the
  three texts gives exactly the bytes of the container's \<^verbatim>\<open>/certs/ca.crt\<close>,
  \<^verbatim>\<open>/certs/client.crt\<close> and \<^verbatim>\<open>/certs/client.key\<close>, in this order.
\<close>

theorem C5_kubeconfig_fields:
  assumes "env_MkdirTemp E (step w0) [] ''kubeconfig-certs'' = Inr tempDir"
    and "env_Run E (step w0 + 1)
           [''docker'', ''cp'', containerName @ '':'' @ ''/certs/ca.crt'',
            filepath_Join tempDir ''ca.crt''] = None"
    and "env_Run E (step w0 + 2)
           [''docker'', ''cp'', containerName @ '':'' @ ''/certs/client.crt'',
            filepath_Join tempDir ''client.crt''] = None"
    and "env_Run E (step w0 + 3)
           [''docker'', ''cp'', containerName @ '':'' @ ''/certs/client.key'',
            filepath_Join tempDir ''client.key''] = None"
    and "env_Create E (step w0 + 7) kubeconfigPath = None"
    and "env_Write E (step w0 + 8) kubeconfigPath = None"
    and "\<not> prefix (tempDir @ ''/'') kubeconfigPath" and "kubeconfigPath \<noteq> tempDir"
  shows "\<exists>w' CACertData ClientCertData ClientKeyData.
           GenerateKubeconfig E kubeconfigPath serverURL containerName w0 = (None, w') \<and>
           files w' kubeconfigPath =
             Some (''\<newline>apiVersion: v1\<newline>kind: Config\<newline>clusters:\<newline>- cluster:\<newline>'' @
                   ''    server: '' @ serverURL @ ''\<newline>'' @
                   ''    certificate-authority-data: '' @ CACertData @ ''\<newline>'' @
                   ''  name: kubernetes\<newline>contexts:\<newline>- context:\<newline>'' @
                   ''    cluster: kubernetes\<newline>    user: admin\<newline>  name: kubernetes\<newline>'' @
                   ''current-context: kubernetes\<newline>users:\<newline>- name: admin\<newline>  user:\<newline>'' @
                   ''    client-certificate-data: '' @ ClientCertData @ ''\<newline>'' @
                   ''    client-key-data: '' @ ClientKeyData @ ''\<newline>'') \<and>
           LF \<notin> set CACertData \<and> LF \<notin> set ClientCertData \<and> LF \<notin> set ClientKeyData \<and>
           DecodeString CACertData =
             Some (env_container_file E (step w0 + 1) containerName ''/certs/ca.crt'') \<and>
           DecodeString ClientCertData =
             Some (env_container_file E (step w0 + 2) containerName ''/certs/client.crt'') \<and>
           DecodeString ClientKeyData =
             Some (env_container_file E (step w0 + 3) containerName ''/certs/client.key'')"
proof -
  define ca where "ca = env_container_file E (step w0 + 1) containerName ''/certs/ca.crt''"
  define cert where "cert = env_container_file E (step w0 + 2) containerName ''/certs/client.crt''"
  define key where "key = env_container_file E (step w0 + 3) containerName ''/certs/client.key''"
  obtain r w' where
    g: "GenerateKubeconfig E kubeconfigPath serverURL containerName w0 = (r, w')"
    by (cases "GenerateKubeconfig E kubeconfigPath serverURL containerName w0")
  have 1: "r = None"
    using g assms Join_distinct[of tempDir]
    by (simp add: GenerateKubeconfig_def GenerateKubeconfig_body_def copyFileFromContainer_def
        world_ops eval_nat_numeral)
  have 2: "files w' kubeconfigPath =
             Some (kubeconfigTemplate serverURL (EncodeToString ca) (EncodeToString cert)
                     (EncodeToString key))"
    using g assms Join_distinct[of tempDir]
    by (auto simp: GenerateKubeconfig_def GenerateKubeconfig_body_def copyFileFromContainer_def
        world_ops eval_nat_numeral ca_def cert_def key_def)
  have 3: "LF \<notin> set (EncodeToString xs)" for xs
    using set_EncodeToString[of xs] base64_chars by blast
  have 4: "GenerateKubeconfig E kubeconfigPath serverURL containerName w0 = (None, w')"
    using g 1 by simp
  have 5: "DecodeString (EncodeToString xs) = Some xs" for xs
    by (rule DecodeString_EncodeToString)
  show ?thesis
    apply (rule exI[of _ w'], rule exI[of _ "EncodeToString ca"])
    apply (rule exI[of _ "EncodeToString cert"], rule exI[of _ "EncodeToString key"])
    apply (intro conjI)
           apply (rule 4)
          apply (simp add: 2 kubeconfigTemplate_def)
         apply (rule 3)
        apply (rule 3)
       apply (rule 3)
      apply (simp only: 5 ca_def)
     apply (simp only: 5 cert_def)
    apply (simp only: 5 key_def)
    done
qed

theorem C5_kubeconfig_fields_witness:
  "env_MkdirTemp env0 (step w_init) [] ''kubeconfig-certs'' = Inr ''/tmp/kubeconfig-certs1'' \<and>
   env_Run env0 (step w_init + 3)
     [''docker'', ''cp'', ''kube-apiserver'' @ '':'' @ ''/certs/client.key'',
      filepath_Join ''/tmp/kubeconfig-certs1'' ''client.key''] = None \<and>
   \<not> prefix (''/tmp/kubeconfig-certs1'' @ ''/'') ''kubeconfig.yaml'' \<and>
   (\<exists>w' CACertData ClientCertData ClientKeyData.
           GenerateKubeconfig env0 ''kubeconfig.yaml'' ''https://10.0.0.5:6443'' ''kube-apiserver'' w_init = (None, w') \<and>
           files w' ''kubeconfig.yaml'' =
             Some (''\<newline>apiVersion: v1\<newline>kind: Config\<newline>clusters:\<newline>- cluster:\<newline>'' @
                   ''    server: '' @ ''https://10.0.0.5:6443'' @ ''\<newline>'' @
                   ''    certificate-authority-data: '' @ CACertData @ ''\<newline>'' @
                   ''  name: kubernetes\<newline>contexts:\<newline>- context:\<newline>'' @
                   ''    cluster: kubernetes\<newline>    user: admin\<newline>  name: kubernetes\<newline>'' @
                   ''current-context: kubernetes\<newline>users:\<newline>- name: admin\<newline>  user:\<newline>'' @
                   ''    client-certificate-data: '' @ ClientCertData @ ''\<newline>'' @
                   ''    client-key-data: '' @ ClientKeyData @ ''\<newline>'') \<and>
           LF \<notin> set CACertData \<and> LF \<notin> set ClientCertData \<and> LF \<notin> set ClientKeyData \<and>
           DecodeString CACertData =
             Some (env_container_file env0 (step w_init + 1) ''kube-apiserver'' ''/certs/ca.crt'') \<and>
           DecodeString ClientCertData =
             Some (env_container_file env0 (step w_init + 2) ''kube-apiserver'' ''/certs/client.crt'') \<and>
           DecodeString ClientKeyData =
             Some (env_container_file env0 (step w_init + 3) ''kube-apiserver'' ''/certs/client.key''))"
proof -
  have md: "env_MkdirTemp env0 (step w_init) [] ''kubeconfig-certs'' =
              Inr ''/tmp/kubeconfig-certs1''"
    by (simp add: env0_def)
  have k: "env_Run env0 (step w_init + 3)
     [''docker'', ''cp'', ''kube-apiserver'' @ '':'' @ ''/certs/client.key'',
      filepath_Join ''/tmp/kubeconfig-certs1'' ''client.key''] = None"
    by (simp add: env0_def)
  have o: "\<not> prefix (''/tmp/kubeconfig-certs1'' @ ''/'') ''kubeconfig.yaml''"
    by simp
  have "\<exists>w' CACertData ClientCertData ClientKeyData.
           GenerateKubeconfig env0 ''kubeconfig.yaml'' ''https://10.0.0.5:6443'' ''kube-apiserver'' w_init = (None, w') \<and>
           files w' ''kubeconfig.yaml'' =
             Some (''\<newline>apiVersion: v1\<newline>kind: Config\<newline>clusters:\<newline>- cluster:\<newline>'' @
                   ''    server: '' @ ''https://10.0.0.5:6443'' @ ''\<newline>'' @
                   ''    certificate-authority-data: '' @ CACertData @ ''\<newline>'' @
                   ''  name: kubernetes\<newline>contexts:\<newline>- context:\<newline>'' @
                   ''    cluster: kubernetes\<newline>    user: admin\<newline>  name: kubernetes\<newline>'' @
                   ''current-context: kubernetes\<newline>users:\<newline>- name: admin\<newline>  user:\<newline>'' @
                   ''    client-certificate-data: '' @ ClientCertData @ ''\<newline>'' @
                   ''    client-key-data: '' @ ClientKeyData @ ''\<newline>'') \<and>
           LF \<notin> set CACertData \<and> LF \<notin> set ClientCertData \<and> LF \<notin> set ClientKeyData \<and>
           DecodeString CACertData =
             Some (env_container_file env0 (step w_init + 1) ''kube-apiserver'' ''/certs/ca.crt'') \<and>
           DecodeString ClientCertData =
             Some (env_container_file env0 (step w_init + 2) ''kube-apiserver'' ''/certs/client.crt'') \<and>
           DecodeString ClientKeyData =
             Some (env_container_file env0 (step w_init + 3) ''kube-apiserver'' ''/certs/client.key'')"
    by (rule C5_kubeconfig_fields[OF md _ _ k _ _ o]) (simp_all add: env0_def)
  with md k o show ?thesis by blast
qed

section \<open>Claims C6 to C9: the two certificate templates\<close>

text \<open>
  Claim C6: a successful issuance calls \<^verbatim>\<open>x509.CreateCertificate\<close> exactly twice. The
  first call makes the CA certificate: template and parent are the same template, so the
  issuer is its own subject; \<open>IsCA\<close> is set; the signing key is the CA key, and the
  public key certified is the public half of that same key. The second call makes the
  client certificate: its parent is the CA template, so its issuer is the CA's subject,
  and it is signed with the CA's private key.
\<close>

theorem C6_issuer_and_signer:
  assumes "GenerateSelfSignedCAWithSAN E caCertPath caKeyPath clientCertPath clientKeyPath
             hostIP w0 = (None, w')"
  shows "\<exists>caT clientT caPriv (clientPriv :: ecdsa_PrivateKey).
           created (drop (step w0) (trace w')) =
             [(caT, caT, PublicKey caPriv, caPriv),
              (clientT, caT, PublicKey clientPriv, caPriv)] \<and>
           IsCA caT \<and> Issuer caT caT = Subject caT \<and>
           \<not> IsCA clientT \<and> Issuer clientT caT = Subject caT"
proof -
  from assms obtain caPriv and clientPriv :: ecdsa_PrivateKey where
    c: "created (drop (step w0) (trace w')) =
       [(caTemplate (env_Now E (step w0 + 1)) (env_Now E (step w0 + 2)) (env_ParseIP E hostIP),
         caTemplate (env_Now E (step w0 + 1)) (env_Now E (step w0 + 2)) (env_ParseIP E hostIP),
         PublicKey caPriv, caPriv),
        (clientTemplate (env_Now E (step w0 + 9)) (env_Now E (step w0 + 10)) (env_ParseIP E hostIP),
         caTemplate (env_Now E (step w0 + 1)) (env_Now E (step w0 + 2)) (env_ParseIP E hostIP),
         PublicKey clientPriv, caPriv)]"
    by (rule issuance_created)
  define caT where
    "caT = caTemplate (env_Now E (step w0 + 1)) (env_Now E (step w0 + 2)) (env_ParseIP E hostIP)"
  define clientT where
    "clientT =
       clientTemplate (env_Now E (step w0 + 9)) (env_Now E (step w0 + 10)) (env_ParseIP E hostIP)"
  have 1: "created (drop (step w0) (trace w')) =
             [(caT, caT, PublicKey caPriv, caPriv), (clientT, caT, PublicKey clientPriv, caPriv)]"
    unfolding c caT_def clientT_def ..
  have 2: "IsCA caT" "Issuer caT caT = Subject caT"
    by (simp_all add: caT_def caTemplate_def Issuer_def)
  have 3: "\<not> IsCA clientT" "Issuer clientT caT = Subject caT"
    by (simp_all add: clientT_def clientTemplate_def Issuer_def)
  from 1 2 3 show ?thesis by blast
qed

theorem C6_issuer_and_signer_witness:
  "GenerateSelfSignedCAWithSAN env0 ''ca.crt'' ''ca.key'' ''client.crt'' ''client.key''
     ''10.0.0.5'' w_init = (None, w_issued) \<and>
   (\<exists>caT clientT caPriv (clientPriv :: ecdsa_PrivateKey).
      created (drop (step w_init) (trace w_issued)) =
        [(caT, caT, PublicKey caPriv, caPriv), (clientT, caT, PublicKey clientPriv, caPriv)] \<and>
      IsCA caT \<and> Issuer caT caT = Subject caT \<and>
      \<not> IsCA clientT \<and> Issuer clientT caT = Subject caT)"
  using C6_issuer_and_signer[OF env0_issued] env0_issued by simp

text \<open>
  Claim C7: when the host address parses (\<^verbatim>\<open>net.ParseIP\<close> does not return \<^verbatim>\<open>nil\<close>),
  the IP-address list of the CA template and of the client template each hold exactly
  the parsed address.
\<close>

theorem C7_ip_san:
  assumes "GenerateSelfSignedCAWithSAN E caCertPath caKeyPath clientCertPath clientKeyPath
             hostIP w0 = (None, w')"
    and "env_ParseIP E hostIP \<noteq> []"
  shows "map (\<lambda>(template, parent, pub, priv). IPAddresses template)
           (created (drop (step w0) (trace w'))) =
         [[env_ParseIP E hostIP], [env_ParseIP E hostIP]] \<and>
         [] \<notin> set [env_ParseIP E hostIP]"
proof -
  from assms(1) obtain caPriv and clientPriv :: ecdsa_PrivateKey where
    c: "created (drop (step w0) (trace w')) =
       [(caTemplate (env_Now E (step w0 + 1)) (env_Now E (step w0 + 2)) (env_ParseIP E hostIP),
         caTemplate (env_Now E (step w0 + 1)) (env_Now E (step w0 + 2)) (env_ParseIP E hostIP),
         PublicKey caPriv, caPriv),
        (clientTemplate (env_Now E (step w0 + 9)) (env_Now E (step w0 + 10)) (env_ParseIP E hostIP),
         caTemplate (env_Now E (step w0 + 1)) (env_Now E (step w0 + 2)) (env_ParseIP E hostIP),
         PublicKey clientPriv, caPriv)]"
    by (rule issuance_created)
  show ?thesis
    unfolding c using assms(2) by (simp add: caTemplate_def clientTemplate_def)
qed

theorem C7_ip_san_witness:
  "GenerateSelfSignedCAWithSAN env0 ''ca.crt'' ''ca.key'' ''client.crt'' ''client.key''
     ''10.0.0.5'' w_init = (None, w_issued) \<and>
   env_ParseIP env0 ''10.0.0.5'' \<noteq> [] \<and>
   map (\<lambda>(template, parent, pub, priv). IPAddresses template)
     (created (drop (step w_init) (trace w_issued))) =
     [[env_ParseIP env0 ''10.0.0.5''], [env_ParseIP env0 ''10.0.0.5'']] \<and>
   [] \<notin> set [env_ParseIP env0 ''10.0.0.5'']"
proof -
  have v: "env_ParseIP env0 ''10.0.0.5'' \<noteq> []" by (simp add: env0_def)
  show ?thesis using C7_ip_san[OF env0_issued v] env0_issued v by simp
qed

text \<open>
  Claim C8: in both templates \<open>NotBefore\<close> is one clock reading and \<open>NotAfter\<close> is the
  next clock reading plus 365 days, so \<open>NotAfter - NotBefore\<close> is 365 days plus the time
  between the two readings; when the two readings are at most \<open>tol\<close> apart, the window
  is 365 days up to \<open>tol\<close>.
\<close>

theorem C8_validity_window:
  assumes "GenerateSelfSignedCAWithSAN E caCertPath caKeyPath clientCertPath clientKeyPath
             hostIP w0 = (None, w')"
    and "\<bar>env_Now E (step w0 + 2) - env_Now E (step w0 + 1)\<bar> \<le> tol"
    and "\<bar>env_Now E (step w0 + 10) - env_Now E (step w0 + 9)\<bar> \<le> tol"
  shows "map (\<lambda>(template, parent, pub, priv). NotAfter template - NotBefore template)
           (created (drop (step w0) (trace w'))) =
         [365 * 24 * Hour + (env_Now E (step w0 + 2) - env_Now E (step w0 + 1)),
          365 * 24 * Hour + (env_Now E (step w0 + 10) - env_Now E (step w0 + 9))] \<and>
         list_all (\<lambda>(template, parent, pub, priv).
                     \<bar>NotAfter template - NotBefore template - 365 * 24 * Hour\<bar> \<le> tol)
           (created (drop (step w0) (trace w')))"
proof -
  from assms(1) obtain caPriv and clientPriv :: ecdsa_PrivateKey where
    c: "created (drop (step w0) (trace w')) =
       [(caTemplate (env_Now E (step w0 + 1)) (env_Now E (step w0 + 2)) (env_ParseIP E hostIP),
         caTemplate (env_Now E (step w0 + 1)) (env_Now E (step w0 + 2)) (env_ParseIP E hostIP),
         PublicKey caPriv, caPriv),
        (clientTemplate (env_Now E (step w0 + 9)) (env_Now E (step w0 + 10)) (env_ParseIP E hostIP),
         caTemplate (env_Now E (step w0 + 1)) (env_Now E (step w0 + 2)) (env_ParseIP E hostIP),
         PublicKey clientPriv, caPriv)]"
    by (rule issuance_created)
  show ?thesis
    unfolding c using assms(2,3) by (simp add: caTemplate_def clientTemplate_def)
qed

theorem C8_validity_window_witness:
  "GenerateSelfSignedCAWithSAN env0 ''ca.crt'' ''ca.key'' ''client.crt'' ''client.key''
     ''10.0.0.5'' w_init = (None, w_issued) \<and>
   \<bar>env_Now env0 (step w_init + 2) - env_Now env0 (step w_init + 1)\<bar> \<le> 1000000000 \<and>
   \<bar>env_Now env0 (step w_init + 10) - env_Now env0 (step w_init + 9)\<bar> \<le> 1000000000 \<and>
   map (\<lambda>(template, parent, pub, priv). NotAfter template - NotBefore template)
     (created (drop (step w_init) (trace w_issued))) =
     [365 * 24 * Hour + (env_Now env0 (step w_init + 2) - env_Now env0 (step w_init + 1)),
      365 * 24 * Hour + (env_Now env0 (step w_init + 10) - env_Now env0 (step w_init + 9))] \<and>
   list_all (\<lambda>(template, parent, pub, priv).
               \<bar>NotAfter template - NotBefore template - 365 * 24 * Hour\<bar> \<le> 1000000000)
     (created (drop (step w_init) (trace w_issued)))"
proof -
  have a: "\<bar>env_Now env0 (step w_init + 2) - env_Now env0 (step w_init + 1)\<bar> \<le> 1000000000"
    by (simp add: env0_def)
  have b: "\<bar>env_Now env0 (step w_init + 10) - env_Now env0 (step w_init + 9)\<bar> \<le> 1000000000"
    by (simp add: env0_def)
  show ?thesis using C8_validity_window[OF env0_issued a b] env0_issued a b by simp
qed

text \<open>
  Claim C9: an address that does not parse is not rejected. Where no library call and no
  file operation fails, issuance succeeds all the same, and the IP-address list of both
  templates holds the one \<^verbatim>\<open>nil\<close> address that \<^verbatim>\<open>net.ParseIP\<close> returned.
\<close>

theorem C9_invalid_host_address:
  assumes "env_ParseIP E hostIP = []"
    and "\<And>n c. \<exists>k. env_GenerateKey E n c = Inr k"
    and "\<And>n t p pub priv. \<exists>der. env_CreateCertificate E n t p pub priv = Inr der"
    and "\<And>k. \<exists>b. env_MarshalECPrivateKey E k = Inr b"
    and "\<And>n p. env_Create E n p = None"
    and "\<And>n p. env_Write E n p = None"
  shows "\<exists>w'. GenerateSelfSignedCAWithSAN E caCertPath caKeyPath clientCertPath clientKeyPath
                hostIP w0 = (None, w') \<and>
              map (\<lambda>(template, parent, pub, priv). IPAddresses template)
                (created (drop (step w0) (trace w'))) = [[[]], [[]]]"
proof -
  obtain w' where
    r: "GenerateSelfSignedCAWithSAN E caCertPath caKeyPath clientCertPath clientKeyPath
          hostIP w0 = (None, w')"
    using issuance_runs[OF assms(2-6)] by blast
  from r obtain caPriv and clientPriv :: ecdsa_PrivateKey where
    c: "created (drop (step w0) (trace w')) =
       [(caTemplate (env_Now E (step w0 + 1)) (env_Now E (step w0 + 2)) (env_ParseIP E hostIP),
         caTemplate (env_Now E (step w0 + 1)) (env_Now E (step w0 + 2)) (env_ParseIP E hostIP),
         PublicKey caPriv, caPriv),
        (clientTemplate (env_Now E (step w0 + 9)) (env_Now E (step w0 + 10)) (env_ParseIP E hostIP),
         caTemplate (env_Now E (step w0 + 1)) (env_Now E (step w0 + 2)) (env_ParseIP E hostIP),
         PublicKey clientPriv, caPriv)]"
    by (rule issuance_created)
  have m: "map (\<lambda>(template, parent, pub, priv). IPAddresses template)
          (created (drop (step w0) (trace w'))) = [[[]], [[]]]"
    unfolding c using assms(1) by (simp add: caTemplate_def clientTemplate_def)
  show ?thesis by (rule exI[of _ w']) (rule conjI[OF r m])
qed

theorem C9_invalid_host_address_witness:
  "env_ParseIP env0 ''not-an-address'' = [] \<and>
   (\<exists>w'. GenerateSelfSignedCAWithSAN env0 ''ca.crt'' ''ca.key'' ''client.crt'' ''client.key''
           ''not-an-address'' w_init = (None, w') \<and>
         map (\<lambda>(template, parent, pub, priv). IPAddresses template)
           (created (drop (step w_init) (trace w'))) = [[[]], [[]]])"
proof -
  have p: "env_ParseIP env0 ''not-an-address'' = []" by (simp add: env0_def)
  have "\<exists>w'. GenerateSelfSignedCAWithSAN env0 ''ca.crt'' ''ca.key'' ''client.crt'' ''client.key''
           ''not-an-address'' w_init = (None, w') \<and>
         map (\<lambda>(template, parent, pub, priv). IPAddresses template)
           (created (drop (step w_init) (trace w'))) = [[[]], [[]]]"
    by (rule C9_invalid_host_address[OF p]) (simp_all add: env0_def)
  with p show ?thesis by simp
qed

section \<open>Claim C10: no server certificate of its own\<close>



end
